theory Spec2Isabelle
  imports Complex_Main "HOL-Library.Word"
begin

section \<open>JavaScript values as the server sees them\<close>

text \<open>
  The server (\<^verbatim>\<open>src/server.js\<close>) is an Express application whose handlers work on
  values parsed from JSON request bodies.  A JavaScript string is a sequence of 16-bit
  code units; \<open>length\<close> of the model string is the \<^verbatim>\<open>.length\<close> of the JavaScript one.
  Literals of the source that are plain ASCII are written with \<open>lit\<close>.
\<close>

type_synonym jsstring = "16 word list"

definition lit :: "string \<Rightarrow> jsstring" where
  "lit s = map (\<lambda>c. of_nat (of_char c)) s"

text \<open>
  A Number is NaN, an infinity, or a finite value; the finite values are carried by
  their exact rational value (both zeros are \<open>Fin 0\<close>).  The server only compares
  Numbers and prints them, it never does arithmetic on them.
\<close>

datatype jsnum = NaN | NegInf | Fin rat | PosInf

datatype jsval =
    JUndefined
  | JNull
  | JBool bool
  | JNum jsnum
  | JStr jsstring
  | JArr "jsval list"
  | JObj "(jsstring \<times> jsval) list"

text \<open>
  Exceptions: the \<^verbatim>\<open>TypeError\<close> the language raises itself (calling a method that a
  value does not have, converting an object that has no usable \<^verbatim>\<open>toString\<close>), and
  whatever an external collaborator throws, identified by its message.
\<close>

datatype jsexn = TypeError | Thrown jsstring

subsection \<open>The parts of the runtime that are not written out\<close>

text \<open>
  Conversions whose full definition lives in the language standard or in Node and
  involves floating-point rounding or the Unicode tables are parameters of the model, and
  so are the external collaborators.  Every theorem below holds for every choice of them.
  \<^item> \<open>StringToNumber\<close>: the Number a string converts to (unary plus on a string);
  \<^item> \<open>FractionToString\<close>: \<^verbatim>\<open>Number::toString\<close> on finite values that are not integers
    below \<open>2^53\<close> in magnitude (up to there every integer is a Number and prints with
    all its digits);
  \<^item> \<open>upperNonAscii\<close>, \<open>lowerNonAscii\<close>: \<^verbatim>\<open>toUpperCase\<close>, \<^verbatim>\<open>toLowerCase\<close> on strings
    that contain a code unit outside ASCII;
  \<^item> \<open>upperUnit\<close>: the simple upper-case mapping of one code unit outside ASCII
    (used by case-insensitive regular expressions);
  \<^item> \<open>extname\<close>: \<^verbatim>\<open>path.extname\<close>;
  \<^item> \<open>generateContent\<close>: the generation API.  Its answer may differ from call to call,
    so it is indexed by the number of calls made before; what comes back is a
    \<open>generation\<close>;
  \<^item> \<open>loadPdf\<close>: reading the file at a path and parsing it with \<^verbatim>\<open>pdfjs\<close>; it throws,
    or gives the pages, each the list of the \<^verbatim>\<open>str\<close> of its text items.
\<close>

datatype generation =
    Rejects jsexn       \<comment> \<open>\<^verbatim>\<open>generateContent\<close> throws or its promise rejects\<close>
  | NoText              \<comment> \<open>\<^verbatim>\<open>res?.response?.text\<close> is missing or falsy\<close>
  | TextThrows jsexn    \<comment> \<open>\<^verbatim>\<open>res.response.text()\<close> throws\<close>
  | Text jsval          \<comment> \<open>\<^verbatim>\<open>res.response.text()\<close> returns this value\<close>

record env =
  StringToNumber :: "jsstring \<Rightarrow> jsnum"
  FractionToString :: "rat \<Rightarrow> jsstring"
  upperNonAscii :: "jsstring \<Rightarrow> jsstring"
  lowerNonAscii :: "jsstring \<Rightarrow> jsstring"
  upperUnit :: "16 word \<Rightarrow> 16 word"
  extname :: "jsstring \<Rightarrow> jsstring"
  generateContent :: "nat \<Rightarrow> jsstring \<Rightarrow> rat \<Rightarrow> generation"
  loadPdf :: "jsstring \<Rightarrow> jsexn + jsstring list list"

subsection \<open>Strings\<close>

text \<open>\<^verbatim>\<open>String.prototype.trim\<close> strips WhiteSpace and LineTerminator code points.\<close>

definition isWhiteSpace :: "16 word \<Rightarrow> bool" where
  "isWhiteSpace c \<longleftrightarrow>
     c = 0x09 \<or> c = 0x0A \<or> c = 0x0B \<or> c = 0x0C \<or> c = 0x0D \<or> c = 0x20 \<or> c = 0xA0 \<or>
     c = 0x1680 \<or> (0x2000 \<le> c \<and> c \<le> 0x200A) \<or> c = 0x2028 \<or> c = 0x2029 \<or>
     c = 0x202F \<or> c = 0x205F \<or> c = 0x3000 \<or> c = 0xFEFF"

definition trim :: "jsstring \<Rightarrow> jsstring" where
  "trim s = rev (dropWhile isWhiteSpace (rev (dropWhile isWhiteSpace s)))"

text \<open>\<^verbatim>\<open>Array.prototype.join\<close> on an array of strings.\<close>

fun join :: "jsstring \<Rightarrow> jsstring list \<Rightarrow> jsstring" where
  "join sep [] = []"
| "join sep [x] = x"
| "join sep (x # y # ys) = x @ sep @ join sep (y # ys)"

definition isAscii :: "16 word \<Rightarrow> bool" where
  "isAscii c \<longleftrightarrow> c < 0x80"

definition asciiUpper :: "16 word \<Rightarrow> 16 word" where
  "asciiUpper c = (if 0x61 \<le> c \<and> c \<le> 0x7A then c - 0x20 else c)"

definition asciiLower :: "16 word \<Rightarrow> 16 word" where
  "asciiLower c = (if 0x41 \<le> c \<and> c \<le> 0x5A then c + 0x20 else c)"

definition toUpperCase :: "env \<Rightarrow> jsstring \<Rightarrow> jsstring" where
  "toUpperCase E s = (if list_all isAscii s then map asciiUpper s else upperNonAscii E s)"

definition toLowerCase :: "env \<Rightarrow> jsstring \<Rightarrow> jsstring" where
  "toLowerCase E s = (if list_all isAscii s then map asciiLower s else lowerNonAscii E s)"

subsection \<open>Numbers\<close>

fun digits :: "nat \<Rightarrow> jsstring" where
  "digits n = (if n < 10 then [of_nat (48 + n)]
               else digits (n div 10) @ [of_nat (48 + n mod 10)])"

declare digits.simps [simp del]

definition NumberToString :: "env \<Rightarrow> jsnum \<Rightarrow> jsstring" where
  "NumberToString E n =
     (case n of
        NaN \<Rightarrow> lit ''NaN''
      | PosInf \<Rightarrow> lit ''Infinity''
      | NegInf \<Rightarrow> lit ''-Infinity''
      | Fin q \<Rightarrow>
          if rat_of_int \<lfloor>q\<rfloor> = q \<and> \<bar>q\<bar> < 2 ^ 53
          then (if q < 0 then lit ''-'' else []) @ digits (nat \<bar>\<lfloor>q\<rfloor>\<bar>)
          else FractionToString E q)"

text \<open>The order of Numbers; every comparison with NaN is false.\<close>

fun num_less :: "jsnum \<Rightarrow> jsnum \<Rightarrow> bool" where
  "num_less NaN _ = False"
| "num_less _ NaN = False"
| "num_less _ NegInf = False"
| "num_less NegInf _ = True"
| "num_less PosInf _ = False"
| "num_less _ PosInf = True"
| "num_less (Fin a) (Fin b) = (a < b)"

definition Math_min :: "jsnum \<Rightarrow> jsnum \<Rightarrow> jsnum" where
  "Math_min a b = (if a = NaN \<or> b = NaN then NaN else if num_less b a then b else a)"

definition Math_max :: "jsnum \<Rightarrow> jsnum \<Rightarrow> jsnum" where
  "Math_max a b = (if a = NaN \<or> b = NaN then NaN else if num_less a b then b else a)"

subsection \<open>Conversions\<close>

text \<open>\<^verbatim>\<open>ToBoolean\<close>: what \<^verbatim>\<open>!x\<close>, \<^verbatim>\<open>x || y\<close> and \<^verbatim>\<open>if (x)\<close> test.\<close>

fun truthy :: "jsval \<Rightarrow> bool" where
  "truthy JUndefined = False"
| "truthy JNull = False"
| "truthy (JBool b) = b"
| "truthy (JNum n) = (n \<noteq> NaN \<and> n \<noteq> Fin 0)"
| "truthy (JStr s) = (s \<noteq> [])"
| "truthy (JArr _) = True"
| "truthy (JObj _) = True"

text \<open>
  \<^verbatim>\<open>ToString\<close>, as used by template literals, \<^verbatim>\<open>String(x)\<close> and \<^verbatim>\<open>RegExp.test\<close>.
  An array converts through \<^verbatim>\<open>join(",")\<close>, where \<^verbatim>\<open>undefined\<close> and \<^verbatim>\<open>null\<close> elements
  give the empty string.  A plain object parsed from JSON converts through
  \<^verbatim>\<open>Object.prototype.toString\<close>, unless it has an own property \<^verbatim>\<open>toString\<close>: that
  property is then a JSON value, not callable, the inherited \<^verbatim>\<open>valueOf\<close> returns the
  object itself, and the conversion throws a TypeError.
\<close>

fun ToString :: "env \<Rightarrow> jsval \<Rightarrow> jsexn + jsstring"
  and ToString_elems :: "env \<Rightarrow> jsval list \<Rightarrow> jsexn + jsstring list" where
  "ToString E JUndefined = Inr (lit ''undefined'')"
| "ToString E JNull = Inr (lit ''null'')"
| "ToString E (JBool b) = Inr (if b then lit ''true'' else lit ''false'')"
| "ToString E (JNum n) = Inr (NumberToString E n)"
| "ToString E (JStr s) = Inr s"
| "ToString E (JArr xs) =
     (case ToString_elems E xs of Inl e \<Rightarrow> Inl e | Inr ss \<Rightarrow> Inr (join (lit '','') ss))"
| "ToString E (JObj kvs) =
     (if map_of kvs (lit ''toString'') \<noteq> None then Inl TypeError
      else Inr (lit ''[object Object]''))"
| "ToString_elems E [] = Inr []"
| "ToString_elems E (x # xs) =
     (case (case x of JUndefined \<Rightarrow> Inr [] | JNull \<Rightarrow> Inr [] | _ \<Rightarrow> ToString E x) of
        Inl e \<Rightarrow> Inl e
      | Inr s \<Rightarrow> (case ToString_elems E xs of Inl e \<Rightarrow> Inl e | Inr ss \<Rightarrow> Inr (s # ss)))"

text \<open>\<^verbatim>\<open>ToNumber\<close>, the unary plus.  Arrays and objects go through their string.\<close>

fun ToNumber :: "env \<Rightarrow> jsval \<Rightarrow> jsexn + jsnum" where
  "ToNumber E JUndefined = Inr NaN"
| "ToNumber E JNull = Inr (Fin 0)"
| "ToNumber E (JBool b) = Inr (Fin (if b then 1 else 0))"
| "ToNumber E (JNum n) = Inr n"
| "ToNumber E (JStr s) = Inr (StringToNumber E s)"
| "ToNumber E v =
     (case ToString E v of Inl e \<Rightarrow> Inl e | Inr s \<Rightarrow> Inr (StringToNumber E s))"

text \<open>
  Reading a field of the request body, as the destructuring
  \<^verbatim>\<open>const { text, count = 10 } = req.body || {}\<close> does: a body that is not an object, or
  an object without the key, gives \<^verbatim>\<open>undefined\<close>; a default applies to \<^verbatim>\<open>undefined\<close>
  only.
\<close>

definition field :: "jsval \<Rightarrow> string \<Rightarrow> jsval" where
  "field body k =
     (case body of
        JObj kvs \<Rightarrow> (case map_of kvs (lit k) of Some v \<Rightarrow> v | None \<Rightarrow> JUndefined)
      | _ \<Rightarrow> JUndefined)"

definition field_default :: "jsval \<Rightarrow> string \<Rightarrow> jsval \<Rightarrow> jsval" where
  "field_default body k d = (case field body k of JUndefined \<Rightarrow> d | v \<Rightarrow> v)"

section \<open>The server\<close>

subsection \<open>State, computations and responses\<close>

text \<open>
  What a handler can change: the module-level array \<^verbatim>\<open>tutorMemory\<close>, the temporary
  files that the upload middleware has written, and (kept for the record) the calls
  made to the generation API, each with its prompt and temperature.
\<close>

record turn =
  m_role :: jsstring
  m_text :: jsstring

record world =
  tutorMemory :: "turn list"
  uploads :: "jsstring set"
  calls :: "(jsstring \<times> rat) list"

text \<open>A computation runs on the world and returns a value or throws.\<close>

type_synonym 'a comp = "world \<Rightarrow> (jsexn + 'a) \<times> world"

definition ret :: "'a \<Rightarrow> 'a comp" where
  "ret x w = (Inr x, w)"

definition lift :: "jsexn + 'a \<Rightarrow> 'a comp" where
  "lift r w = (r, w)"

definition seq :: "'a comp \<Rightarrow> ('a \<Rightarrow> 'b comp) \<Rightarrow> 'b comp" where
  "seq m f w = (case m w of (Inl e, w') \<Rightarrow> (Inl e, w') | (Inr x, w') \<Rightarrow> f x w')"

text \<open>
  A response is a status and a JSON body: \<^verbatim>\<open>{ key: text }\<close> on success,
  \<^verbatim>\<open>{ error, hint?, details? }\<close> otherwise.  The \<^verbatim>\<open>details\<close> are kept as the expression
  the source computes from the exception.
\<close>

datatype detail = StringOf jsexn | MessageOf jsexn | MessageOrStringOf jsexn

datatype payload =
    Result string jsstring
  | Error string "string option" "detail option"

record response =
  status :: nat
  payload :: payload

definition json :: "string \<Rightarrow> jsstring \<Rightarrow> response" where
  "json key v = \<lparr>status = 200, payload = Result key v\<rparr>"

definition fail :: "nat \<Rightarrow> string \<Rightarrow> string option \<Rightarrow> detail option \<Rightarrow> response" where
  "fail st code hint details = \<lparr>status = st, payload = Error code hint details\<rparr>"

text \<open>
  A handler either sends a response or, when an exception escapes it, sends none
  (the rejection of an \<^verbatim>\<open>async\<close> handler is not caught by Express 4).
\<close>

datatype outcome = Responded response | Unhandled jsexn

definition try_catch :: "response comp \<Rightarrow> (jsexn \<Rightarrow> response) \<Rightarrow> world \<Rightarrow> outcome \<times> world" where
  "try_catch body handler w =
     (case body w of
        (Inl e, w') \<Rightarrow> (Responded (handler e), w')
      | (Inr r, w') \<Rightarrow> (Responded r, w'))"

record upload =
  originalname :: jsstring
  path :: jsstring

record request =
  body :: jsval
  "file" :: "upload option"

subsection \<open>Helpers\<close>

text \<open>
  \<^verbatim>\<open>askGemini\<close> (lines 66-73): one call of the generation API,
  \<^verbatim>\<open>txt = res?.response?.text ? res.response.text() : ""\<close>, then \<^verbatim>\<open>(txt || "").trim()\<close>.
\<close>

definition askGemini :: "env \<Rightarrow> jsstring \<Rightarrow> rat \<Rightarrow> jsstring comp" where
  "askGemini E prompt temperature w =
     (let w' = w\<lparr>calls := calls w @ [(prompt, temperature)]\<rparr> in
      case generateContent E (length (calls w)) prompt temperature of
        Rejects e \<Rightarrow> (Inl e, w')
      | NoText \<Rightarrow> (Inr (trim []), w')
      | TextThrows e \<Rightarrow> (Inl e, w')
      | Text txt \<Rightarrow>
          (if \<not> truthy txt then (Inr (trim []), w')
           else case txt of JStr s \<Rightarrow> (Inr (trim s), w') | _ \<Rightarrow> (Inl TypeError, w')))"

text \<open>
  The regular expression \<^verbatim>\<open>/^none$/i\<close>.  Without the \<^verbatim>\<open>u\<close> flag two code units
  match when their canonical forms agree: the upper-case mapping, except that a code
  unit outside ASCII is never mapped into ASCII.
\<close>

definition canonicalize :: "env \<Rightarrow> 16 word \<Rightarrow> 16 word" where
  "canonicalize E c =
     (if isAscii c then asciiUpper c
      else (let u = upperUnit E c in if isAscii u then c else u))"

definition test_none :: "env \<Rightarrow> jsstring \<Rightarrow> bool" where
  "test_none E s = list_all2 (\<lambda>p c. canonicalize E p = canonicalize E c) (lit ''none'') s"

text \<open>\<^verbatim>\<open>wrapBilingual\<close> (lines 75-78).\<close>

definition wrapBilingual :: "env \<Rightarrow> jsstring \<Rightarrow> jsval \<Rightarrow> jsexn + jsstring" where
  "wrapBilingual E text language =
     (if \<not> truthy language then Inr text
      else case ToString E language of
        Inl e \<Rightarrow> Inl e
      | Inr language \<Rightarrow>
          if test_none E language then Inr text
          else Inr (text @ lit ''\<newline>\<newline>---\<newline>\<newline>'' @ [0xD83D, 0xDD01] @ lit '' '' @
                    language @ lit '' Translation:\<newline>'' @
                    lit ''Translate the entire answer above to '' @ language @
                    lit '', preserving structure, headings, lists and tone.''))"

text \<open>
  \<^verbatim>\<open>readPdf\<close> (lines 92-103): the loop over the pages appends, for each page, its
  items joined by a space and two newlines.
\<close>

definition readPdf :: "env \<Rightarrow> jsstring \<Rightarrow> jsstring comp" where
  "readPdf E filePath =
     lift (case loadPdf E filePath of
             Inl e \<Rightarrow> Inl e
           | Inr pages \<Rightarrow>
               Inr (foldl (\<lambda>text items. text @ join (lit '' '') items @ lit ''\<newline>\<newline>'')
                      [] pages))"

text \<open>
  The test \<^verbatim>\<open>!x || !x.trim()\<close> that guards the required field of a route: \<open>None\<close>
  when the test holds, the string when it does not; a truthy value that is not a
  string has no \<^verbatim>\<open>trim\<close> method.
\<close>

definition required :: "jsval \<Rightarrow> jsexn + jsstring option" where
  "required x =
     (if \<not> truthy x then Inr None
      else case x of
        JStr s \<Rightarrow> if trim s = [] then Inr None else Inr (Some s)
      | _ \<Rightarrow> Inl TypeError)"

text \<open>\<^verbatim>\<open>+count || d\<close> and the clamp \<^verbatim>\<open>Math.max(1, Math.min(+count || d, hi))\<close>.\<close>

definition or_number :: "jsnum \<Rightarrow> jsnum \<Rightarrow> jsnum" where
  "or_number n d = (if truthy (JNum n) then n else d)"

subsection \<open>Prompt builders\<close>

definition promptSummary :: "jsstring \<Rightarrow> jsstring \<Rightarrow> jsstring" where
  "promptSummary text lang =
     lit ''You are an academic summarizer. Create a deep, structured, readable '' @
     lit ''summary in '' @ lang @ lit ''.\<newline>'' @
     lit ''Use this layout:\<newline>'' @
     lit ''\<newline>'' @
     lit ''Title: (infer)\<newline>'' @
     lit ''\<newline>'' @
     lit ''Executive Summary (6'' @ [0x2013] @ lit ''10 sentences):\<newline>'' @
     lit ''- What it'' @ [0x27] @ lit ''s about\<newline>'' @
     lit ''- Why it matters\<newline>'' @
     lit ''- Context/scope\<newline>'' @
     lit ''- Main results or conclusions\<newline>'' @
     lit ''\<newline>'' @
     lit ''Key Concepts (bulleted, concise)\<newline>'' @
     lit ''\<newline>'' @
     lit ''Step-by-Step Explanation (8'' @ [0x2013] @ lit ''14 numbered steps)\<newline>'' @
     lit ''\<newline>'' @
     lit ''Examples & Analogies (2'' @ [0x2013] @ lit ''4)\<newline>'' @
     lit ''\<newline>'' @
     lit ''Important Data/Formulae (if any)\<newline>'' @
     lit ''\<newline>'' @
     lit ''Assumptions & Limitations (3'' @ [0x2013] @ lit ''6)\<newline>'' @
     lit ''\<newline>'' @
     lit ''Implications & Applications (3'' @ [0x2013] @ lit ''6)\<newline>'' @
     lit ''\<newline>'' @
     lit ''Common Pitfalls / Misconceptions (3'' @ [0x2013] @ lit ''6)\<newline>'' @
     lit ''\<newline>'' @
     [0xD83C, 0xDFAF] @ lit '' 10 High-Impact Takeaways (exactly 10 bullets)\<newline>'' @
     lit ''\<newline>'' @
     lit ''Source:\<newline>'' @
     text"

definition promptQuiz :: "env \<Rightarrow> jsstring \<Rightarrow> jsnum \<Rightarrow> jsstring" where
  "promptQuiz E text count =
     lit ''Create '' @ NumberToString E count @
     lit '' multiple-choice questions from the content below.\<newline>'' @
     lit ''Rules:\<newline>'' @
     lit ''- Each question should test meaningful understanding.\<newline>'' @
     lit ''- 4 options (A'' @ [0x2013] @ lit ''D), one correct answer.\<newline>'' @
     lit ''- Mix recall, inference, application.\<newline>'' @
     lit ''- After options, give '' @ [0x22] @ lit ''Answer: <Letter> '' @ [0x2014] @
     lit '' one-line reason'' @ [0x22] @ lit ''.\<newline>'' @
     lit ''\<newline>'' @
     lit ''Format exactly:\<newline>'' @
     lit ''\<newline>'' @
     lit ''1) Question text\<newline>'' @
     lit ''A) ...\<newline>'' @
     lit ''B) ...\<newline>'' @
     lit ''C) ...\<newline>'' @
     lit ''D) ...\<newline>'' @
     lit ''Answer: <Letter> '' @ [0x2014] @ lit '' reason\<newline>'' @
     lit ''\<newline>'' @
     lit ''Content:\<newline>'' @
     text"

definition promptFlashcards :: "env \<Rightarrow> jsstring \<Rightarrow> jsnum \<Rightarrow> jsstring" where
  "promptFlashcards E text count =
     lit ''Generate '' @ NumberToString E count @
     lit '' high-quality active-recall flashcards from the content.\<newline>'' @
     lit ''Return lines exactly as:\<newline>'' @
     lit ''Q: <question>\<newline>'' @
     lit ''A: <answer>\<newline>'' @
     lit ''\<newline>'' @
     lit ''CONTENT:\<newline>'' @
     text"



definition promptParaphrase :: "env \<Rightarrow> jsstring \<Rightarrow> jsstring \<Rightarrow> jsnum \<Rightarrow> jsstring" where
  "promptParaphrase E text tone variations =
     lit ''Paraphrase the text below into '' @ NumberToString E variations @
     lit '' distinct versions in a '' @ tone @ lit '' tone.\<newline>'' @
     lit ''Rules:\<newline>'' @
     lit ''- Preserve meaning and citations if any.\<newline>'' @
     lit ''- Avoid plagiarism; alter syntax and word choice.\<newline>'' @
     lit ''- For each version, provide a 1-line note about what changed (e.g., '' @
     lit ''simpler syntax, more formal).\<newline>'' @
     lit ''Format:\<newline>'' @
     lit ''## Version 1\<newline>'' @
     lit ''<text>\<newline>'' @
     lit ''Note: ...\<newline>'' @
     lit ''## Version 2\<newline>'' @
     lit ''<text>\<newline>'' @
     lit ''Note: ...\<newline>'' @
     lit ''## Version 3\<newline>'' @
     lit ''<text>\<newline>'' @
     lit ''Note: ...\<newline>'' @
     lit ''TEXT:\<newline>'' @
     text"


definition promptCitations :: "env \<Rightarrow> jsstring \<Rightarrow> jsval \<Rightarrow> jsexn + jsstring" where
  "promptCitations E refs style =
     (case ToString E (case style of JUndefined \<Rightarrow> JStr (lit ''APA'') | _ \<Rightarrow> style) of
        Inl e \<Rightarrow> Inl e
      | Inr style \<Rightarrow> Inr (
     lit ''Format the following references in '' @ style @ lit '' style.\<newline>'' @
     lit ''If any fields are missing, infer reasonably and mark [n.d.] or [Place '' @
     lit ''unknown] as needed.\<newline>'' @
     lit ''Return as a numbered list, then a plain-text bibliography block.\<newline>'' @
     lit ''REFERENCES:\<newline>'' @
     refs))"


definition tutorPrompt :: "jsstring \<Rightarrow> jsstring" where
  "tutorPrompt convo =
     lit ''You are a patient subject-matter tutor. Continue the conversation. '' @
     lit ''Use Socratic questioning and examples. Keep answers concise but '' @
     lit ''helpful.\<newline>'' @
     lit ''Conversation so far:\<newline>'' @
     convo"

subsection \<open>\<^verbatim>\<open>JSON.stringify\<close>\<close>

text \<open>
  \<^verbatim>\<open>JSON.stringify\<close> without indentation, on values parsed from JSON.  A string is
  quoted with the escapes of \<^verbatim>\<open>QuoteJSONString\<close>: the short escapes, \<^verbatim>\<open>\uXXXX\<close> for the
  other control characters and for a surrogate that is not part of a pair.  A Number
  that is not finite prints as \<^verbatim>\<open>null\<close>.  \<^verbatim>\<open>undefined\<close> has no JSON text (\<open>None\<close>),
  prints as \<^verbatim>\<open>null\<close> inside an array and is left out of an object.  The properties of
  an object are listed in the order of the association list.
\<close>

definition hexDigit :: "nat \<Rightarrow> 16 word" where
  "hexDigit n = (if n < 10 then of_nat (48 + n) else of_nat (87 + n))"

definition unicodeEscape :: "16 word \<Rightarrow> jsstring" where
  "unicodeEscape c =
     [0x5C, 0x75, hexDigit (unat c div 4096), hexDigit (unat c div 256 mod 16),
      hexDigit (unat c div 16 mod 16), hexDigit (unat c mod 16)]"

definition isHighSurrogate :: "16 word \<Rightarrow> bool" where
  "isHighSurrogate c \<longleftrightarrow> 0xD800 \<le> c \<and> c \<le> 0xDBFF"

definition isLowSurrogate :: "16 word \<Rightarrow> bool" where
  "isLowSurrogate c \<longleftrightarrow> 0xDC00 \<le> c \<and> c \<le> 0xDFFF"

definition escapeUnit :: "16 word \<Rightarrow> jsstring" where
  "escapeUnit c =
     (if c = 0x08 then [0x5C, 0x62]
      else if c = 0x09 then [0x5C, 0x74]
      else if c = 0x0A then [0x5C, 0x6E]
      else if c = 0x0C then [0x5C, 0x66]
      else if c = 0x0D then [0x5C, 0x72]
      else if c = 0x22 then [0x5C, 0x22]
      else if c = 0x5C then [0x5C, 0x5C]
      else if c < 0x20 \<or> isHighSurrogate c \<or> isLowSurrogate c then unicodeEscape c
      else [c])"

fun quoteUnits :: "jsstring \<Rightarrow> jsstring" where
  "quoteUnits [] = []"
| "quoteUnits [c] = escapeUnit c"
| "quoteUnits (c # d # cs) =
     (if isHighSurrogate c \<and> isLowSurrogate d then c # d # quoteUnits cs
      else escapeUnit c @ quoteUnits (d # cs))"

definition QuoteJSONString :: "jsstring \<Rightarrow> jsstring" where
  "QuoteJSONString s = [0x22] @ quoteUnits s @ [0x22]"

fun stringify :: "env \<Rightarrow> jsval \<Rightarrow> jsstring option"
  and stringify_elems :: "env \<Rightarrow> jsval list \<Rightarrow> jsstring list"
  and stringify_props :: "env \<Rightarrow> (jsstring \<times> jsval) list \<Rightarrow> jsstring list" where
  "stringify E JUndefined = None"
| "stringify E JNull = Some (lit ''null'')"
| "stringify E (JBool b) = Some (if b then lit ''true'' else lit ''false'')"
| "stringify E (JNum n) =
     Some (case n of Fin q \<Rightarrow> NumberToString E n | _ \<Rightarrow> lit ''null'')"
| "stringify E (JStr s) = Some (QuoteJSONString s)"
| "stringify E (JArr xs) = Some (lit ''['' @ join (lit '','') (stringify_elems E xs) @ lit '']'')"
| "stringify E (JObj kvs) = Some (lit ''{'' @ join (lit '','') (stringify_props E kvs) @ lit ''}'')"
| "stringify_elems E [] = []"
| "stringify_elems E (x # xs) =
     (case stringify E x of None \<Rightarrow> lit ''null'' | Some s \<Rightarrow> s) # stringify_elems E xs"
| "stringify_props E [] = []"
| "stringify_props E ((k, v) # kvs) =
     (case stringify E v of
        None \<Rightarrow> stringify_props E kvs
      | Some s \<Rightarrow> (QuoteJSONString k @ lit '':'' @ s) # stringify_props E kvs)"

subsection \<open>\<^verbatim>\<open>normalizeRefs\<close> (lines 462-474)\<close>

text \<open>
  On an array: every element that is not a string is replaced by its JSON text, every
  line is trimmed (an element without JSON text is \<^verbatim>\<open>undefined\<close> there, and
  \<^verbatim>\<open>undefined.trim()\<close> throws), the empty lines are dropped and the rest is joined by
  newlines.  On a string: the trimmed string.  On anything else:
  \<^verbatim>\<open>String(input ?? "").trim()\<close>, with \<open>nullish a b\<close> for \<^verbatim>\<open>a ?? b\<close>.
\<close>

definition nullish :: "jsval \<Rightarrow> jsval \<Rightarrow> jsval" where
  "nullish a b = (case a of JUndefined \<Rightarrow> b | JNull \<Rightarrow> b | _ \<Rightarrow> a)"

definition refLine :: "env \<Rightarrow> jsval \<Rightarrow> jsstring option" where
  "refLine E r = (case r of JStr s \<Rightarrow> Some s | _ \<Rightarrow> stringify E r)"

fun trimAll :: "jsstring option list \<Rightarrow> jsexn + jsstring list" where
  "trimAll [] = Inr []"
| "trimAll (None # _) = Inl TypeError"
| "trimAll (Some s # rest) =
     (case trimAll rest of Inl e \<Rightarrow> Inl e | Inr lines \<Rightarrow> Inr (trim s # lines))"

definition normalizeRefs :: "env \<Rightarrow> jsval \<Rightarrow> jsexn + jsstring" where
  "normalizeRefs E input =
     (case input of
        JArr rs \<Rightarrow>
          (case trimAll (map (refLine E) rs) of
             Inl e \<Rightarrow> Inl e
           | Inr lines \<Rightarrow> Inr (join (lit ''\<newline>'') (filter (\<lambda>s. s \<noteq> []) lines)))
      | JStr s \<Rightarrow> Inr (trim s)
      | _ \<Rightarrow>
          (case ToString E (nullish input (JStr [])) of
             Inl e \<Rightarrow> Inl e
           | Inr s \<Rightarrow> Inr (trim s)))"

subsection \<open>Routes\<close>




text \<open>
  \<^verbatim>\<open>fs.unlinkSync\<close> inside its own \<^verbatim>\<open>try { } catch {}\<close>: the file is gone afterwards,
  whether it was there or not.
\<close>

definition unlink_quietly :: "jsstring \<Rightarrow> world \<Rightarrow> world" where
  "unlink_quietly p w = w\<lparr>uploads := uploads w - {p}\<rparr>"

definition summarize_pdf :: "env \<Rightarrow> request \<Rightarrow> world \<Rightarrow> outcome \<times> world" where
  "summarize_pdf E req w =
     (case file req of
        None \<Rightarrow> (Responded (fail 400 ''no_file'' None None), w)
      | Some f \<Rightarrow>
          (let language = field (body req) ''language'';
               (out, w') =
                 try_catch
                   (let ext = toLowerCase E (extname E (originalname f)) in
                    if ext \<noteq> lit ''.pdf''
                    then ret (fail 400 ''unsupported_type'' (Some ''Upload a PDF file.'') None)
                    else
                      seq (readPdf E (path f)) (\<lambda>text.
                      if trim text = [] then ret (fail 400 ''empty_pdf'' None None)
                      else
                        (let prompt = promptSummary text (lit ''English'') in
                         seq (askGemini E prompt (2/5)) (\<lambda>summary.
                         seq (lift (wrapBilingual E summary language)) (\<lambda>summary.
                         ret (json ''summary'' summary))))))
                   (\<lambda>e. fail 500 ''summarize_pdf_failed'' None (Some (StringOf e))) w
           in (out, unlink_quietly (path f) w')))"

definition generate_quiz :: "env \<Rightarrow> request \<Rightarrow> world \<Rightarrow> outcome \<times> world" where
  "generate_quiz E req =
     try_catch
       (let text = field (body req) ''text'';
            count = field_default (body req) ''count'' (JNum (Fin 10));
            language = field (body req) ''language'' in
        seq (lift (required text)) (\<lambda>text.
        case text of
          None \<Rightarrow> ret (fail 400 ''missing_text'' None None)
        | Some text \<Rightarrow>
            seq (lift (ToNumber E count)) (\<lambda>count.
            let prompt = promptQuiz E text
                           (Math_max (Fin 1) (Math_min (or_number count (Fin 10)) (Fin 50))) in
            seq (askGemini E prompt (7/10)) (\<lambda>answer.
            seq (lift (wrapBilingual E answer language)) (\<lambda>answer.
            ret (json ''quiz'' answer))))))
       (\<lambda>e. fail 500 ''quiz_failed'' None (Some (StringOf e)))"

definition flashcards :: "env \<Rightarrow> request \<Rightarrow> world \<Rightarrow> outcome \<times> world" where
  "flashcards E req =
     try_catch
       (let text = field (body req) ''text'';
            count = field_default (body req) ''count'' (JNum (Fin 20));
            language = field (body req) ''language'' in
        seq (lift (required text)) (\<lambda>text.
        case text of
          None \<Rightarrow> ret (fail 400 ''missing_text'' None None)
        | Some text \<Rightarrow>
            seq (lift (ToNumber E count)) (\<lambda>count.
            let prompt = promptFlashcards E text
                           (Math_max (Fin 1) (Math_min (or_number count (Fin 20)) (Fin 100))) in
            seq (askGemini E prompt (3/5)) (\<lambda>answer.
            seq (lift (wrapBilingual E answer language)) (\<lambda>answer.
            ret (json ''cards'' answer))))))
       (\<lambda>e. fail 500 ''flashcards_failed'' None (Some (StringOf e)))"






definition paraphrase :: "env \<Rightarrow> request \<Rightarrow> world \<Rightarrow> outcome \<times> world" where
  "paraphrase E req w =
     (let text = field (body req) ''text'';
          tone = field_default (body req) ''tone'' (JStr (lit ''academic''));
          variations = field_default (body req) ''variations'' (JNum (Fin 3));
          language = field (body req) ''language'' in
      case required text of
        Inl e \<Rightarrow> (Unhandled e, w)
      | Inr None \<Rightarrow> (Responded (fail 400 ''missing_text'' None None), w)
      | Inr (Some text) \<Rightarrow>
          try_catch
            (seq (lift (ToString E (if truthy tone then tone else JStr (lit ''academic'')))) (\<lambda>tone.
             seq (lift (ToNumber E variations)) (\<lambda>variations.
             let prompt = promptParaphrase E text tone
                            (Math_max (Fin 1) (Math_min (or_number variations (Fin 3)) (Fin 6))) in
             seq (askGemini E prompt (7/10)) (\<lambda>answer.
             seq (lift (wrapBilingual E answer language)) (\<lambda>paraphrases.
             ret (json ''paraphrases'' paraphrases))))))
            (\<lambda>e. fail 500 ''paraphrase_failed'' None (Some (StringOf e))) w)"

text \<open>The tutor (lines 427-444) and its module-level memory.\<close>

definition push :: "turn \<Rightarrow> unit comp" where
  "push m w = (Inr (), w\<lparr>tutorMemory := tutorMemory w @ [m]\<rparr>)"

definition convo_of :: "env \<Rightarrow> turn list \<Rightarrow> jsstring" where
  "convo_of E mem =
     join (lit ''\<newline>'') (map (\<lambda>m. toUpperCase E (m_role m) @ lit '': '' @ m_text m) mem)"

definition tutor :: "env \<Rightarrow> request \<Rightarrow> world \<Rightarrow> outcome \<times> world" where
  "tutor E req w =
     (let question = field (body req) ''question''; language = field (body req) ''language'' in
      case required question of
        Inl e \<Rightarrow> (Unhandled e, w)
      | Inr None \<Rightarrow> (Responded (fail 400 ''missing_question'' None None), w)
      | Inr (Some question) \<Rightarrow>
          try_catch
            (seq (push \<lparr>m_role = lit ''user'', m_text = question\<rparr>) (\<lambda>_.
             seq (\<lambda>w. (Inr (convo_of E (tutorMemory w)), w)) (\<lambda>convo.
             let prompt = tutorPrompt convo in
             seq (askGemini E prompt (7/10)) (\<lambda>answer.
             seq (push \<lparr>m_role = lit ''assistant'', m_text = answer\<rparr>) (\<lambda>_.
             seq (lift (wrapBilingual E answer language)) (\<lambda>wrapped.
             ret (json ''answer'' wrapped)))))))
            (\<lambda>e. fail 500 ''tutor_failed'' None (Some (StringOf e))) w)"


definition generate_citations :: "env \<Rightarrow> request \<Rightarrow> world \<Rightarrow> outcome \<times> world" where
  "generate_citations E req =
     try_catch
       (let references = field (body req) ''references'';
            style = field_default (body req) ''style'' (JStr (lit ''APA''));
            language = field (body req) ''language'' in
        seq (lift (normalizeRefs E references)) (\<lambda>refsText.
        if refsText = []
        then ret (fail 400 ''missing_references''
                    (Some (''Send '' @ [CHR 0x60] @ ''references'' @ [CHR 0x60] @
                           '' as a string OR array of strings.'')) None)
        else if length refsText > 100000
        then ret (fail 413 ''payload_too_large''
                    (Some ''Keep total references under ~100k chars.'') None)
        else
          seq (lift (promptCitations E refsText style)) (\<lambda>prompt.
          seq (askGemini E prompt (2/5)) (\<lambda>answer.
          seq (lift (wrapBilingual E answer language)) (\<lambda>citations.
          ret (json ''citations'' citations))))))
       (\<lambda>e. fail 500 ''citations_failed'' None (Some (MessageOrStringOf e)))"


section \<open>A concrete environment\<close>

text \<open>
  To run the handlers on concrete requests the parameters need values.  The
  environment \<open>node script\<close> follows Node on the inputs the examples below use and
  answers the \<open>n\<close>-th call of the generation API with the \<open>n\<close>-th entry of \<open>script\<close>.
  \<^item> \<open>decimalToNumber\<close>: strings that are, once trimmed, empty or at most fifteen decimal
    digits convert to their value; any other string is taken to be no numeric literal.
  \<^item> \<open>decimalExpansion\<close>: the sign, the integer part and up to twenty digits of the
    fraction, which is what Node prints for short decimals such as \<open>2.5\<close>.
  \<^item> Case mappings leave code units outside ASCII alone.
  \<^item> \<open>posix_extname\<close>: the loop of Node's \<^verbatim>\<open>path.posix.extname\<close>.
\<close>

definition isDigit :: "16 word \<Rightarrow> bool" where
  "isDigit c \<longleftrightarrow> 0x30 \<le> c \<and> c \<le> 0x39"

definition decimalToNumber :: "jsstring \<Rightarrow> jsnum" where
  "decimalToNumber s =
     (let t = trim s in
      if list_all isDigit t \<and> length t \<le> 15
      then Fin (of_nat (foldl (\<lambda>n c. 10 * n + (unat c - 48)) 0 t))
      else NaN)"

fun fractionDigits :: "nat \<Rightarrow> rat \<Rightarrow> jsstring" where
  "fractionDigits 0 r = []"
| "fractionDigits (Suc fuel) r =
     (if r = 0 then []
      else (let d = \<lfloor>10 * r\<rfloor> in of_nat (48 + nat d) # fractionDigits fuel (10 * r - of_int d)))"

definition decimalExpansion :: "rat \<Rightarrow> jsstring" where
  "decimalExpansion q =
     (let a = \<bar>q\<bar>; whole = \<lfloor>a\<rfloor>; r = a - of_int whole in
      (if q < 0 then lit ''-'' else []) @ digits (nat whole) @
      (if r = 0 then [] else lit ''.'' @ fractionDigits 20 r))"

record extname_state =
  startDot :: int
  startPart :: int
  endPos :: int
  matchedSlash :: bool
  preDotState :: int

fun extname_loop :: "jsstring \<Rightarrow> nat \<Rightarrow> extname_state \<Rightarrow> extname_state" where
  "extname_loop p 0 st = st"
| "extname_loop p (Suc i) st =
     (let code = p ! i in
      if code = 0x2F then
        (if \<not> matchedSlash st then st\<lparr>startPart := int i + 1\<rparr>
         else extname_loop p i st)
      else
        (let st1 = (if endPos st = - 1 then st\<lparr>endPos := int i + 1, matchedSlash := False\<rparr>
                    else st);
             st2 = (if code = 0x2E then
                      (if startDot st1 = - 1 then st1\<lparr>startDot := int i\<rparr>
                       else if preDotState st1 \<noteq> 1 then st1\<lparr>preDotState := 1\<rparr>
                       else st1)
                    else if startDot st1 \<noteq> - 1 then st1\<lparr>preDotState := - 1\<rparr>
                    else st1)
         in extname_loop p i st2))"

definition posix_extname :: "jsstring \<Rightarrow> jsstring" where
  "posix_extname p =
     (let st = extname_loop p (length p)
                 \<lparr>startDot = - 1, startPart = 0, endPos = - 1, matchedSlash = True,
                  preDotState = 0\<rparr>
      in if startDot st = - 1 \<or> endPos st = - 1 \<or> preDotState st = 0 \<or>
            (preDotState st = 1 \<and> startDot st = endPos st - 1 \<and>
             startDot st = startPart st + 1)
         then []
         else take (nat (endPos st - startDot st)) (drop (nat (startDot st)) p))"

definition scripted :: "generation list \<Rightarrow> nat \<Rightarrow> jsstring \<Rightarrow> rat \<Rightarrow> generation" where
  "scripted script n prompt temperature = (if n < length script then script ! n else NoText)"

definition onePagePdf :: "jsstring \<Rightarrow> jsexn + jsstring list list" where
  "onePagePdf p = Inr ([lit ''Hello'', lit ''world''] # [])"

definition node :: "generation list \<Rightarrow> env" where
  "node script =
     \<lparr>StringToNumber = decimalToNumber,
      FractionToString = decimalExpansion,
      upperNonAscii = map asciiUpper,
      lowerNonAscii = map asciiLower,
      upperUnit = id,
      extname = posix_extname,
      generateContent = scripted script,
      loadPdf = onePagePdf\<rparr>"

text \<open>The state of a freshly started process, with one upload written by the middleware.\<close>

definition fresh :: world where
  "fresh = \<lparr>tutorMemory = [], uploads = {lit ''uploads/3f9a''}, calls = []\<rparr>"

definition post :: "(string \<times> jsval) list \<Rightarrow> request" where
  "post kvs = \<lparr>body = JObj (map (\<lambda>(k, v). (lit k, v)) kvs), file = None\<rparr>"

section \<open>Notions used in the statements\<close>


text \<open>Equal to \<^verbatim>\<open>none\<close> up to the case of the four letters.\<close>

definition is_none :: "jsstring \<Rightarrow> bool" where
  "is_none l \<longleftrightarrow> map asciiLower l = lit ''none''"

text \<open>The translation suffix for a language: what follows the text in the template.\<close>

definition translation_suffix :: "jsstring \<Rightarrow> jsstring" where
  "translation_suffix l =
     lit ''\<newline>\<newline>---\<newline>\<newline>'' @ [0xD83D, 0xDD01] @ lit '' '' @ l @
     lit '' Translation:\<newline>Translate the entire answer above to '' @ l @
     lit '', preserving structure, headings, lists and tone.''"

text \<open>A line of a references array: a string as it is, anything else as JSON text.\<close>

definition line_of :: "env \<Rightarrow> jsval \<Rightarrow> jsstring" where
  "line_of E r =
     (case r of
        JStr s \<Rightarrow> s
      | _ \<Rightarrow> (case stringify E r of Some j \<Rightarrow> j | None \<Rightarrow> []))"

text \<open>References that are an empty array, or a string that is empty or white space.\<close>

fun empty_references :: "jsval \<Rightarrow> bool" where
  "empty_references (JArr rs) = (rs = [])"
| "empty_references (JStr s) = list_all isWhiteSpace s"
| "empty_references _ = False"

text \<open>A value that is neither a string nor an array.\<close>

fun other_value :: "jsval \<Rightarrow> bool" where
  "other_value (JStr _) = False"
| "other_value (JArr _) = False"
| "other_value _ = True"

text \<open>Calls of the tutor route handled one after the other, and their success.\<close>

fun tutor_calls :: "env \<Rightarrow> request list \<Rightarrow> world \<Rightarrow> outcome list \<times> world" where
  "tutor_calls E [] w = ([], w)"
| "tutor_calls E (req # reqs) w =
     (case tutor E req w of
        (out, w1) \<Rightarrow> (case tutor_calls E reqs w1 of (outs, w2) \<Rightarrow> (out # outs, w2)))"

fun succeeded :: "outcome \<Rightarrow> bool" where
  "succeeded (Responded r) = (status r = 200)"
| "succeeded (Unhandled _) = False"

definition user_turn :: "jsstring \<Rightarrow> turn" where
  "user_turn q = \<lparr>m_role = lit ''user'', m_text = q\<rparr>"

definition assistant_turn :: "jsstring \<Rightarrow> turn" where
  "assistant_turn a = \<lparr>m_role = lit ''assistant'', m_text = a\<rparr>"

text \<open>The turns that a list of (question, answer) exchanges leaves in the memory.\<close>

fun turns_of :: "(jsstring \<times> jsstring) list \<Rightarrow> turn list" where
  "turns_of [] = []"
| "turns_of ((q, a) # rest) = user_turn q # assistant_turn a # turns_of rest"

text \<open>The fixed instruction that opens every prompt of the tutor (lines 434-435).\<close>

definition tutor_header :: jsstring where
  "tutor_header =
     lit ''You are a patient subject-matter tutor. Continue the conversation. Use Socratic '' @
     lit ''questioning and examples. Keep answers concise but helpful.\<newline>'' @
     lit ''Conversation so far:\<newline>''"

section \<open>Properties\<close>

subsection \<open>Trimming and the \<^verbatim>\<open>none\<close> test\<close>

lemma trim_eq_Nil_iff: "trim s = [] \<longleftrightarrow> list_all isWhiteSpace s"
proof
  assume "trim s = []"
  then have all: "\<forall>c \<in> set (dropWhile isWhiteSpace s). isWhiteSpace c"
    by (simp add: trim_def)
  have "dropWhile isWhiteSpace s = []"
  proof (cases "dropWhile isWhiteSpace s")
    case Nil
    then show ?thesis .
  next
    case (Cons c cs)
    then have "\<not> isWhiteSpace c"
      using hd_dropWhile [of isWhiteSpace s] by simp
    moreover have "isWhiteSpace c"
      using all Cons by simp
    ultimately show ?thesis by simp
  qed
  then show "list_all isWhiteSpace s"
    by (simp add: list_all_iff)
next
  assume "list_all isWhiteSpace s"
  then show "trim s = []"
    by (auto simp add: trim_def list_all_iff dest: set_dropWhileD)
qed

lemma trim_Nil [simp]: "trim [] = []"
  by (simp add: trim_def)

lemma upper_letter:
  "0x61 \<le> p \<Longrightarrow> p \<le> 0x7A \<Longrightarrow> asciiUpper c = p - 0x20 \<longleftrightarrow> c = p \<or> c = p - 0x20"
  unfolding asciiUpper_def by (auto; unat_arith)

lemma lower_letter:
  "0x61 \<le> p \<Longrightarrow> p \<le> 0x7A \<Longrightarrow> asciiLower c = p \<longleftrightarrow> c = p \<or> c = p - 0x20"
  unfolding asciiLower_def by (auto; unat_arith)

lemma canonicalize_letter:
  assumes "0x61 \<le> p" "p \<le> 0x7A"
  shows "canonicalize E p = canonicalize E c \<longleftrightarrow> asciiLower c = p"
proof -
  have "isAscii p" using assms unfolding isAscii_def by unat_arith
  then have l: "canonicalize E p = p - 0x20"
    using assms by (simp add: canonicalize_def asciiUpper_def)
  have small: "isAscii (p - 0x20)" using assms unfolding isAscii_def by unat_arith
  show ?thesis
  proof (cases "isAscii c")
    case True
    then show ?thesis
      using l upper_letter [OF assms, of c] lower_letter [OF assms, of c]
      by (auto simp: canonicalize_def)
  next
    case False
    then have "\<not> isAscii (canonicalize E c)"
      by (simp add: canonicalize_def Let_def)
    then have "canonicalize E c \<noteq> p - 0x20" using small by auto
    moreover have "asciiLower c \<noteq> p"
      using False \<open>isAscii p\<close> small lower_letter [OF assms, of c] by auto
    ultimately show ?thesis using l by simp
  qed
qed

lemma lit_none: "lit ''none'' = [0x6E, 0x6F, 0x6E, 0x65]"
  by (simp add: lit_def)

lemma test_none_iff: "test_none E l \<longleftrightarrow> is_none l"
proof -
  have n: "\<And>c. canonicalize E 0x6E = canonicalize E c \<longleftrightarrow> asciiLower c = 0x6E"
    by (rule canonicalize_letter) simp_all
  have o: "\<And>c. canonicalize E 0x6F = canonicalize E c \<longleftrightarrow> asciiLower c = 0x6F"
    by (rule canonicalize_letter) simp_all
  have e: "\<And>c. canonicalize E 0x65 = canonicalize E c \<longleftrightarrow> asciiLower c = 0x65"
    by (rule canonicalize_letter) simp_all
  show ?thesis
    unfolding test_none_def is_none_def lit_none
    by (auto simp add: list_all2_Cons1 n o e)
qed

lemma wrapBilingual_falsy: "\<not> truthy language \<Longrightarrow> wrapBilingual E text language = Inr text"
  by (simp add: wrapBilingual_def)

lemma wrapBilingual_truthy:
  "truthy language \<Longrightarrow> ToString E language = Inr l \<Longrightarrow>
   wrapBilingual E text language = Inr (if is_none l then text else text @ translation_suffix l)"
  by (simp add: wrapBilingual_def test_none_iff translation_suffix_def lit_def)

text \<open>
  C2.  \<open>wrapBilingual\<close> returns the text unchanged when the language is absent, empty
  or equal to \<^verbatim>\<open>none\<close> up to case; for any other non-empty language it returns the text
  followed by one translation suffix, the fixed template with that language in both
  places.  A value that is not a string counts as absent when it is falsy and is
  otherwise judged by the string it converts to.
\<close>

theorem wrapBilingual_suffix:
  "wrapBilingual E text JUndefined = Inr text \<and>
   wrapBilingual E text (JStr []) = Inr text \<and>
   (is_none l \<longrightarrow> wrapBilingual E text (JStr l) = Inr text) \<and>
   (l \<noteq> [] \<and> \<not> is_none l \<longrightarrow>
      wrapBilingual E text (JStr l) = Inr (text @ translation_suffix l)) \<and>
   (\<not> truthy language \<longrightarrow> wrapBilingual E text language = Inr text) \<and>
   (truthy language \<and> ToString E language = Inr l \<longrightarrow>
      wrapBilingual E text language =
        Inr (if is_none l then text else text @ translation_suffix l))"
proof -
  have a: "is_none l \<Longrightarrow> wrapBilingual E text (JStr l) = Inr text"
    by (cases "l = []") (simp_all add: wrapBilingual_falsy wrapBilingual_truthy)
  have b: "l \<noteq> [] \<Longrightarrow> \<not> is_none l \<Longrightarrow>
      wrapBilingual E text (JStr l) = Inr (text @ translation_suffix l)"
    by (simp add: wrapBilingual_truthy)
  show ?thesis
    using a b by (simp add: wrapBilingual_falsy wrapBilingual_truthy)
qed

theorem wrapBilingual_suffix_witness:
  "wrapBilingual (node []) (lit ''Bonjour'') (JStr (lit ''NoNe'')) = Inr (lit ''Bonjour'') \<and>
   wrapBilingual (node []) (lit ''Hello'') (JStr (lit ''French'')) =
     Inr (lit ''Hello'' @ translation_suffix (lit ''French'')) \<and>
   wrapBilingual (node []) (lit ''Hello'') (JBool False) = Inr (lit ''Hello'') \<and>
   wrapBilingual (node []) (lit ''Hello'') (JArr [JStr (lit ''none'')]) = Inr (lit ''Hello'')"
  using wrapBilingual_suffix [of "node []" "lit ''Bonjour''" "lit ''NoNe''" "JBool False"]
    wrapBilingual_suffix [of "node []" "lit ''Hello''" "lit ''French''" "JBool False"]
    wrapBilingual_suffix [of "node []" "lit ''Hello''" "lit ''none''" "JArr [JStr (lit ''none'')]"]
  by (simp add: is_none_def lit_def asciiLower_def)

subsection \<open>The guard of a required field\<close>


lemma required_string: "\<not> list_all isWhiteSpace s \<Longrightarrow> required (JStr s) = Inr (Some s)"
  by (auto simp add: required_def trim_eq_Nil_iff)

lemma required_Some:
  "required v = Inr (Some s) \<Longrightarrow> v = JStr s \<and> \<not> list_all isWhiteSpace s"
  by (cases v) (auto simp add: required_def trim_eq_Nil_iff split: if_splits)

lemma seq_lift: "seq (lift r) f w = (case r of Inl e \<Rightarrow> (Inl e, w) | Inr x \<Rightarrow> f x w)"
  by (simp add: seq_def lift_def)





lemma field_post_here: "field (body (post ((k, v) # kvs))) k = v"
  by (simp add: field_def post_def)

lemma field_post_skip:
  "lit k \<noteq> lit k' \<Longrightarrow> field (body (post ((k', v) # kvs))) k = field (body (post kvs)) k"
  by (simp add: field_def post_def)

lemma field_post_Nil: "field (body (post [])) k = JUndefined"
  by (simp add: field_def post_def)

subsection \<open>The generation adapter\<close>

lemma snd_askGemini: "snd (askGemini E p t w) = w\<lparr>calls := calls w @ [(p, t)]\<rparr>"
  by (simp add: askGemini_def Let_def split: generation.splits jsval.splits)

lemma askGemini_world:
  "askGemini E p t w = (fst (askGemini E p t w), w\<lparr>calls := calls w @ [(p, t)]\<rparr>)"
  using snd_askGemini [of E p t w] by (metis prod.collapse)

lemma fst_askGemini_memory:
  "fst (askGemini E p t (w\<lparr>tutorMemory := m\<rparr>)) = fst (askGemini E p t w)"
  by (simp add: askGemini_def Let_def split: generation.splits jsval.splits)

text \<open>
  C7.  Whatever the prompt and the temperature, \<open>askGemini\<close> makes one call and returns
  the trimmed text of its response; it returns the empty string when the response has
  no text or an empty one.
\<close>

theorem askGemini_trimmed:
  "(generateContent E (length (calls w)) prompt temperature = Text (JStr s) \<longrightarrow>
      askGemini E prompt temperature w =
        (Inr (trim s), w\<lparr>calls := calls w @ [(prompt, temperature)]\<rparr>)) \<and>
   (generateContent E (length (calls w)) prompt temperature = NoText \<or>
    generateContent E (length (calls w)) prompt temperature = Text JUndefined \<or>
    generateContent E (length (calls w)) prompt temperature = Text JNull \<or>
    generateContent E (length (calls w)) prompt temperature = Text (JStr []) \<longrightarrow>
      askGemini E prompt temperature w =
        (Inr [], w\<lparr>calls := calls w @ [(prompt, temperature)]\<rparr>))"
  by (auto simp add: askGemini_def Let_def trim_eq_Nil_iff)

theorem askGemini_trimmed_witness:
  "askGemini (node [Text (JStr (lit ''  Paris. '')), NoText]) (lit ''Capital?'') (7/10) fresh =
     (Inr (lit ''Paris.''), fresh\<lparr>calls := [(lit ''Capital?'', 7/10)]\<rparr>) \<and>
   askGemini (node [NoText]) (lit ''Capital?'') (7/10) fresh =
     (Inr [], fresh\<lparr>calls := [(lit ''Capital?'', 7/10)]\<rparr>)"
  using askGemini_trimmed
      [of "node [Text (JStr (lit ''  Paris. '')), NoText]" fresh "lit ''Capital?''" "7/10"
          "lit ''  Paris. ''"]
    askGemini_trimmed [of "node [NoText]" fresh "lit ''Capital?''" "7/10" "[]"]
  by (simp add: node_def scripted_def fresh_def trim_def lit_def isWhiteSpace_def)

subsection \<open>The clamp of a count\<close>

lemma clamp_range:
  assumes "lo \<le> d" "d \<le> hi"
  shows "\<exists>q. Math_max (Fin lo) (Math_min (or_number n (Fin d)) (Fin hi)) = Fin q \<and>
             lo \<le> q \<and> q \<le> hi"
  using assms by (cases n) (auto simp: Math_max_def Math_min_def or_number_def)

lemma snd_try_catch: "snd (try_catch m h w) = snd (m w)"
  by (simp add: try_catch_def split: prod.splits sum.splits)

lemma snd_answer:
  "snd (seq (askGemini E p t) (\<lambda>a. seq (lift (g a)) (\<lambda>b. ret (k b))) w) =
     w\<lparr>calls := calls w @ [(p, t)]\<rparr>"
proof -
  obtain r where r: "askGemini E p t w = (r, w\<lparr>calls := calls w @ [(p, t)]\<rparr>)"
    using askGemini_world by blast
  then show ?thesis
    by (simp add: seq_def lift_def ret_def split: sum.splits)
qed

lemma quiz_calls:
  "\<exists>new. calls (snd (generate_quiz E req w)) = calls w @ new \<and>
      (new = [] \<or>
       (\<exists>s q. field (body req) ''text'' = JStr s \<and>
          new = [(promptQuiz E s (Fin q), 7/10)] \<and> 1 \<le> q \<and> q \<le> 50))"
proof (cases "required (field (body req) ''text'')")
  case (Inl e)
  then show ?thesis
    by (simp add: generate_quiz_def snd_try_catch seq_lift)
next
  case (Inr t)
  show ?thesis
  proof (cases t)
    case None
    with Inr show ?thesis
      by (simp add: generate_quiz_def snd_try_catch seq_lift ret_def)
  next
    case (Some s)
    show ?thesis
    proof (cases "ToNumber E (field_default (body req) ''count'' (JNum (Fin 10)))")
      case (Inl e)
      with \<open>required _ = Inr t\<close> Some show ?thesis
        by (simp add: generate_quiz_def snd_try_catch seq_lift)
    next
      case (Inr n)
      obtain q where q: "Math_max (Fin 1) (Math_min (or_number n (Fin 10)) (Fin 50)) = Fin q"
          "1 \<le> q" "q \<le> 50"
        using clamp_range [of 1 10 50 n] by auto
      from \<open>required _ = Inr t\<close> Some have "field (body req) ''text'' = JStr s"
        using required_Some by blast
      with \<open>required _ = Inr t\<close> Some Inr q show ?thesis
        by (simp add: generate_quiz_def snd_try_catch seq_lift snd_answer) blast
    qed
  qed
qed

lemma flashcards_calls:
  "\<exists>new. calls (snd (flashcards E req w)) = calls w @ new \<and>
      (new = [] \<or>
       (\<exists>s q. field (body req) ''text'' = JStr s \<and>
          new = [(promptFlashcards E s (Fin q), 3/5)] \<and> 1 \<le> q \<and> q \<le> 100))"
proof (cases "required (field (body req) ''text'')")
  case (Inl e)
  then show ?thesis
    by (simp add: flashcards_def snd_try_catch seq_lift)
next
  case (Inr t)
  show ?thesis
  proof (cases t)
    case None
    with Inr show ?thesis
      by (simp add: flashcards_def snd_try_catch seq_lift ret_def)
  next
    case (Some s)
    show ?thesis
    proof (cases "ToNumber E (field_default (body req) ''count'' (JNum (Fin 20)))")
      case (Inl e)
      with \<open>required _ = Inr t\<close> Some show ?thesis
        by (simp add: flashcards_def snd_try_catch seq_lift)
    next
      case (Inr n)
      obtain q where q: "Math_max (Fin 1) (Math_min (or_number n (Fin 20)) (Fin 100)) = Fin q"
          "1 \<le> q" "q \<le> 100"
        using clamp_range [of 1 20 100 n] by auto
      from \<open>required _ = Inr t\<close> Some have "field (body req) ''text'' = JStr s"
        using required_Some by blast
      with \<open>required _ = Inr t\<close> Some Inr q show ?thesis
        by (simp add: flashcards_def snd_try_catch seq_lift snd_answer) blast
    qed
  qed
qed

lemma paraphrase_calls:
  "\<exists>new. calls (snd (paraphrase E req w)) = calls w @ new \<and>
      (new = [] \<or>
       (\<exists>s tone q. field (body req) ''text'' = JStr s \<and>
          new = [(promptParaphrase E s tone (Fin q), 7/10)] \<and> 1 \<le> q \<and> q \<le> 6))"
proof (cases "required (field (body req) ''text'')")
  case (Inl e)
  then show ?thesis
    by (simp add: paraphrase_def)
next
  case (Inr t)
  show ?thesis
  proof (cases t)
    case None
    with Inr show ?thesis
      by (simp add: paraphrase_def)
  next
    case (Some s)
    let ?tone = "field_default (body req) ''tone'' (JStr (lit ''academic''))"
    show ?thesis
    proof (cases "ToString E (if truthy ?tone then ?tone else JStr (lit ''academic''))")
      case (Inl e)
      with \<open>required _ = Inr t\<close> Some show ?thesis
        by (simp add: paraphrase_def snd_try_catch seq_lift Let_def)
    next
      case tone: (Inr tone)
      show ?thesis
      proof (cases "ToNumber E (field_default (body req) ''variations'' (JNum (Fin 3)))")
        case (Inl e)
        with \<open>required _ = Inr t\<close> Some tone show ?thesis
          by (simp add: paraphrase_def snd_try_catch seq_lift Let_def)
      next
        case (Inr n)
        obtain q where q: "Math_max (Fin 1) (Math_min (or_number n (Fin 3)) (Fin 6)) = Fin q"
            "1 \<le> q" "q \<le> 6"
          using clamp_range [of 1 3 6 n] by auto
        from \<open>required _ = Inr t\<close> Some have "field (body req) ''text'' = JStr s"
          using required_Some by blast
        with \<open>required _ = Inr t\<close> Some tone Inr q show ?thesis
          by (simp add: paraphrase_def snd_try_catch seq_lift snd_answer Let_def) blast
      qed
    qed
  qed
qed

lemma quiz_count:
  assumes "field (body req) ''text'' = JStr s" "\<not> list_all isWhiteSpace s"
    and "field (body req) ''count'' = JNum n"
  shows "calls (snd (generate_quiz E req w)) =
     calls w @ [(promptQuiz E s (Math_max (Fin 1) (Math_min (or_number n (Fin 10)) (Fin 50))), 7/10)]"
  using assms
  by (simp add: generate_quiz_def snd_try_catch seq_lift snd_answer required_string
      field_default_def)

lemma digits_small: "n < 10 \<Longrightarrow> digits n = [of_nat (48 + n)]"
  by (simp add: digits.simps)

lemma digits_large:
  "\<not> n < 10 \<Longrightarrow> digits n = digits (n div 10) @ [of_nat (48 + n mod 10)]"
  by (subst digits.simps) simp

lemma clamp_500: "Math_max (Fin 1) (Math_min (or_number (Fin 500) (Fin 10)) (Fin 50)) = Fin 50"
  by (simp add: Math_max_def Math_min_def or_number_def)

lemma clamp_0: "Math_max (Fin 1) (Math_min (or_number (Fin 0) (Fin 10)) (Fin 50)) = Fin 10"
  by (simp add: Math_max_def Math_min_def or_number_def)

text \<open>
  C1, as the code has it.  On \<^verbatim>\<open>/generate-quiz\<close>, \<^verbatim>\<open>/flashcards\<close> and \<^verbatim>\<open>/paraphrase\<close> a
  request leads to no call of the generation API or to one call whose prompt is built
  with a count in \<open>[1, 50]\<close>, \<open>[1, 100]\<close> and \<open>[1, 6]\<close> respectively, whatever the
  \<^verbatim>\<open>count\<close> (\<^verbatim>\<open>variations\<close>) of the request is.  For a quiz, \<^verbatim>\<open>count = 500\<close> gives 50, and
  \<^verbatim>\<open>count = 0\<close> gives the default 10: a zero is falsy, so \<^verbatim>\<open>+count || 10\<close> replaces it
  before the clamp.
\<close>

theorem count_clamped:
  "(\<exists>new. calls (snd (generate_quiz E req w)) = calls w @ new \<and>
      (new = [] \<or>
       (\<exists>s q. field (body req) ''text'' = JStr s \<and>
          new = [(promptQuiz E s (Fin q), 7/10)] \<and> 1 \<le> q \<and> q \<le> 50))) \<and>
   (\<exists>new. calls (snd (flashcards E req w)) = calls w @ new \<and>
      (new = [] \<or>
       (\<exists>s q. field (body req) ''text'' = JStr s \<and>
          new = [(promptFlashcards E s (Fin q), 3/5)] \<and> 1 \<le> q \<and> q \<le> 100))) \<and>
   (\<exists>new. calls (snd (paraphrase E req w)) = calls w @ new \<and>
      (new = [] \<or>
       (\<exists>s tone q. field (body req) ''text'' = JStr s \<and>
          new = [(promptParaphrase E s tone (Fin q), 7/10)] \<and> 1 \<le> q \<and> q \<le> 6))) \<and>
   (field (body req) ''text'' = JStr s \<and> \<not> list_all isWhiteSpace s \<longrightarrow>
      (field (body req) ''count'' = JNum (Fin 500) \<longrightarrow>
         calls (snd (generate_quiz E req w)) = calls w @ [(promptQuiz E s (Fin 50), 7/10)]) \<and>
      (field (body req) ''count'' = JNum (Fin 0) \<longrightarrow>
         calls (snd (generate_quiz E req w)) = calls w @ [(promptQuiz E s (Fin 10), 7/10)]))"
  using quiz_calls [of E req w] flashcards_calls [of E req w] paraphrase_calls [of E req w]
    quiz_count [of req s "Fin 500" E w] quiz_count [of req s "Fin 0" E w]
  by (simp add: clamp_500 clamp_0)

theorem count_clamped_witness:
  "calls (snd (generate_quiz (node [Text (JStr (lit ''Q1''))])
     (post [(''text'', JStr (lit ''Cells'')), (''count'', JNum (Fin 500))]) fresh)) =
     [(promptQuiz (node [Text (JStr (lit ''Q1''))]) (lit ''Cells'') (Fin 50), 7/10)] \<and>
   calls (snd (generate_quiz (node [Text (JStr (lit ''Q1''))])
     (post [(''text'', JStr (lit ''Cells'')), (''count'', JNum (Fin 0))]) fresh)) =
     [(promptQuiz (node [Text (JStr (lit ''Q1''))]) (lit ''Cells'') (Fin 10), 7/10)]"
  using count_clamped [of "node [Text (JStr (lit ''Q1''))]"
      "post [(''text'', JStr (lit ''Cells'')), (''count'', JNum (Fin 500))]" fresh "lit ''Cells''"]
    count_clamped [of "node [Text (JStr (lit ''Q1''))]"
      "post [(''text'', JStr (lit ''Cells'')), (''count'', JNum (Fin 0))]" fresh "lit ''Cells''"]
  by (simp add: field_post_here field_post_skip lit_def isWhiteSpace_def fresh_def)

text \<open>
  The claim as it was stated says that \<^verbatim>\<open>count = 0\<close> gives 1.  It gives 10: the prompt of
  the request below starts with \<^verbatim>\<open>Create 10\<close>, not with \<^verbatim>\<open>Create 1\<close>.
\<close>

theorem count_zero_counterexample:
  "calls (snd (generate_quiz (node [Text (JStr (lit ''Q1''))])
     (post [(''text'', JStr (lit ''Cells'')), (''count'', JNum (Fin 0))]) fresh)) =
     [(promptQuiz (node [Text (JStr (lit ''Q1''))]) (lit ''Cells'') (Fin 10), 7/10)] \<and>
   promptQuiz (node [Text (JStr (lit ''Q1''))]) (lit ''Cells'') (Fin 10) \<noteq>
   promptQuiz (node [Text (JStr (lit ''Q1''))]) (lit ''Cells'') (Fin 1) \<and>
   take 10 (promptQuiz (node [Text (JStr (lit ''Q1''))]) (lit ''Cells'') (Fin 10)) =
     lit ''Create 10 ''"
proof -
  have "field (body (post [(''text'', JStr (lit ''Cells'')), (''count'', JNum (Fin 0))])) ''text'' =
      JStr (lit ''Cells'')"
    by (simp add: field_post_here)
  moreover have "field (body (post [(''text'', JStr (lit ''Cells'')), (''count'', JNum (Fin 0))]))
      ''count'' = JNum (Fin 0)"
    by (simp add: field_post_here field_post_skip lit_def)
  moreover have "\<not> list_all isWhiteSpace (lit ''Cells'')"
    by (simp add: lit_def isWhiteSpace_def)
  ultimately have "calls (snd (generate_quiz (node [Text (JStr (lit ''Q1''))])
     (post [(''text'', JStr (lit ''Cells'')), (''count'', JNum (Fin 0))]) fresh)) =
     calls fresh @ [(promptQuiz (node [Text (JStr (lit ''Q1''))]) (lit ''Cells'') (Fin 10), 7/10)]"
    using quiz_count [of _ "lit ''Cells''" "Fin 0"] by (simp add: clamp_0)
  moreover have "digits 10 = [0x31, 0x30]" "digits 1 = [0x31]"
    by (simp_all add: digits_small digits_large)
  ultimately show ?thesis
    by (simp add: fresh_def promptQuiz_def NumberToString_def lit_def)
qed

subsection \<open>Required fields\<close>







subsection \<open>The upload of \<^verbatim>\<open>/summarize-pdf\<close>\<close>

lemma summarize_pdf_uploads:
  assumes "file req = Some f"
  shows "uploads (snd (summarize_pdf E req w)) = uploads w - {path f}"
proof -
  define attempt where "attempt =
    (if toLowerCase E (extname E (originalname f)) \<noteq> lit ''.pdf''
     then ret (fail 400 ''unsupported_type'' (Some ''Upload a PDF file.'') None)
     else
       seq (readPdf E (path f)) (\<lambda>text.
       if trim text = [] then ret (fail 400 ''empty_pdf'' None None)
       else
         seq (askGemini E (promptSummary text (lit ''English'')) (2/5)) (\<lambda>summary.
         seq (lift (wrapBilingual E summary (field (body req) ''language''))) (\<lambda>summary.
         ret (json ''summary'' summary)))))"
  have same: "uploads (snd (attempt w)) = uploads w"
    unfolding attempt_def
    by (cases "loadPdf E (path f)") (simp_all add: readPdf_def seq_lift ret_def snd_answer)
  have "snd (summarize_pdf E req w) =
      unlink_quietly (path f)
        (snd (try_catch attempt
           (\<lambda>e. fail 500 ''summarize_pdf_failed'' None (Some (StringOf e))) w))"
    unfolding summarize_pdf_def Let_def attempt_def using assms
    by (simp add: case_prod_beta)
  then show ?thesis
    using same by (simp add: snd_try_catch unlink_quietly_def)
qed

lemma summarize_pdf_unsupported:
  assumes "file req = Some f" "toLowerCase E (extname E (originalname f)) \<noteq> lit ''.pdf''"
  shows "summarize_pdf E req w =
    (Responded (fail 400 ''unsupported_type'' (Some ''Upload a PDF file.'') None),
     w\<lparr>uploads := uploads w - {path f}\<rparr>)"
  unfolding summarize_pdf_def Let_def using assms
  by (simp add: unlink_quietly_def try_catch_def ret_def)

text \<open>
  C4.  When the original name of an upload to \<^verbatim>\<open>/summarize-pdf\<close> does not have the
  extension \<^verbatim>\<open>.pdf\<close> up to case, the answer is 400 \<^verbatim>\<open>unsupported_type\<close> and the
  generation API is not called.  Whatever happens to an upload (success, a parse error,
  an empty PDF, an unsupported type, a failing generation), its temporary file is gone
  when the handler returns and no other file is touched.
\<close>

theorem upload_removed:
  "file req = Some f \<longrightarrow>
     uploads (snd (summarize_pdf E req w)) = uploads w - {path f} \<and>
     path f \<notin> uploads (snd (summarize_pdf E req w)) \<and>
     (toLowerCase E (extname E (originalname f)) \<noteq> lit ''.pdf'' \<longrightarrow>
        fst (summarize_pdf E req w) =
          Responded (fail 400 ''unsupported_type'' (Some ''Upload a PDF file.'') None) \<and>
        calls (snd (summarize_pdf E req w)) = calls w)"
proof (intro impI conjI)
  assume f: "file req = Some f"
  from f show "uploads (snd (summarize_pdf E req w)) = uploads w - {path f}"
    by (rule summarize_pdf_uploads)
  then show "path f \<notin> uploads (snd (summarize_pdf E req w))"
    by simp
  assume "toLowerCase E (extname E (originalname f)) \<noteq> lit ''.pdf''"
  with f have "summarize_pdf E req w =
    (Responded (fail 400 ''unsupported_type'' (Some ''Upload a PDF file.'') None),
     w\<lparr>uploads := uploads w - {path f}\<rparr>)"
    by (rule summarize_pdf_unsupported)
  then show "fst (summarize_pdf E req w) =
      Responded (fail 400 ''unsupported_type'' (Some ''Upload a PDF file.'') None)"
    and "calls (snd (summarize_pdf E req w)) = calls w"
    by simp_all
qed


lemma extname_notes: "posix_extname (lit ''notes.txt'') = lit ''.txt''"
  by code_simp

lemma lower_txt: "toLowerCase (node script) (lit ''.txt'') = lit ''.txt''"
  by (simp add: toLowerCase_def lit_def isAscii_def asciiLower_def)

lemma notes_not_pdf:
  "toLowerCase (node script) (extname (node script) (lit ''notes.txt'')) \<noteq> lit ''.pdf''"
proof -
  have "extname (node script) (lit ''notes.txt'') = lit ''.txt''"
    by (simp add: node_def extname_notes)
  then show ?thesis
    by (simp add: lower_txt) (simp add: lit_def)
qed

theorem upload_removed_witness:
  "fst (summarize_pdf (node [])
     \<lparr>body = JObj [], file = Some \<lparr>originalname = lit ''notes.txt'', path = lit ''uploads/3f9a''\<rparr>\<rparr>
     fresh) =
     Responded (fail 400 ''unsupported_type'' (Some ''Upload a PDF file.'') None) \<and>
   uploads (snd (summarize_pdf (node [])
     \<lparr>body = JObj [], file = Some \<lparr>originalname = lit ''notes.txt'', path = lit ''uploads/3f9a''\<rparr>\<rparr>
     fresh)) = {} \<and>
   uploads (snd (summarize_pdf (node [Text (JStr (lit ''A greeting.''))])
     \<lparr>body = JObj [], file = Some \<lparr>originalname = lit ''Paper.PDF'', path = lit ''uploads/3f9a''\<rparr>\<rparr>
     fresh)) = {}"
  using upload_removed [of
      "\<lparr>body = JObj [], file = Some \<lparr>originalname = lit ''notes.txt'', path = lit ''uploads/3f9a''\<rparr>\<rparr>"
      "\<lparr>originalname = lit ''notes.txt'', path = lit ''uploads/3f9a''\<rparr>" "node []" fresh]
    upload_removed [of
      "\<lparr>body = JObj [], file = Some \<lparr>originalname = lit ''Paper.PDF'', path = lit ''uploads/3f9a''\<rparr>\<rparr>"
      "\<lparr>originalname = lit ''Paper.PDF'', path = lit ''uploads/3f9a''\<rparr>"
      "node [Text (JStr (lit ''A greeting.''))]" fresh]
    notes_not_pdf [of "[]"]
  by (simp add: fresh_def)

subsection \<open>References\<close>

lemma refLine_line_of: "r \<noteq> JUndefined \<Longrightarrow> refLine E r = Some (line_of E r)"
  by (cases r) (simp_all add: refLine_def line_of_def)

lemma trimAll_lines:
  "JUndefined \<notin> set rs \<Longrightarrow>
   trimAll (map (refLine E) rs) = Inr (map (\<lambda>r. trim (line_of E r)) rs)"
  by (induction rs) (auto simp add: refLine_line_of)

lemma normalizeRefs_array:
  "JUndefined \<notin> set rs \<Longrightarrow>
   normalizeRefs E (JArr rs) =
     Inr (join (lit ''\<newline>'') (filter (\<lambda>l. l \<noteq> []) (map (\<lambda>r. trim (line_of E r)) rs)))"
  by (simp add: normalizeRefs_def trimAll_lines)

lemma normalizeRefs_empty: "empty_references v \<Longrightarrow> normalizeRefs E v = Inr []"
  by (cases v) (simp_all add: normalizeRefs_def trim_eq_Nil_iff)

lemma citations_missing:
  assumes "normalizeRefs E (field (body req) ''references'') = Inr []"
  shows "generate_citations E req w =
    (Responded (fail 400 ''missing_references''
       (Some (''Send '' @ [CHR 0x60] @ ''references'' @ [CHR 0x60] @
              '' as a string OR array of strings.'')) None), w)"
  unfolding generate_citations_def Let_def using assms
  by (simp add: try_catch_def seq_lift ret_def)

lemma citations_sent:
  assumes "normalizeRefs E (field (body req) ''references'') = Inr t"
    and "t \<noteq> []" "length t \<le> 100000"
    and "promptCitations E t (field_default (body req) ''style'' (JStr (lit ''APA''))) = Inr prompt"
  shows "calls (snd (generate_citations E req w)) = calls w @ [(prompt, 2/5)]"
  unfolding generate_citations_def Let_def using assms
  by (simp add: snd_try_catch seq_lift snd_answer)

lemma citations_not_400:
  assumes "normalizeRefs E (field (body req) ''references'') = Inr t" and "t \<noteq> []"
  shows "\<exists>r. fst (generate_citations E req w) = Responded r \<and> status r \<noteq> 400"
proof (cases "length t \<le> 100000")
  case False
  with assms show ?thesis
    unfolding generate_citations_def Let_def
    by (simp add: try_catch_def seq_lift ret_def fail_def)
next
  case True
  let ?style = "field_default (body req) ''style'' (JStr (lit ''APA''))"
  show ?thesis
  proof (cases "promptCitations E t ?style")
    case (Inl e)
    with assms True show ?thesis
      unfolding generate_citations_def Let_def
      by (simp add: try_catch_def seq_lift fail_def)
  next
    case (Inr prompt)
    obtain a where a: "askGemini E prompt (2/5) w = (a, w\<lparr>calls := calls w @ [(prompt, 2/5)]\<rparr>)"
      using askGemini_world by blast
    show ?thesis
    proof (cases a)
      case (Inl e)
      with assms True \<open>promptCitations E t ?style = Inr prompt\<close> a show ?thesis
        unfolding generate_citations_def Let_def
        by (simp add: try_catch_def seq_def lift_def fail_def)
    next
      case answer: (Inr answer)
      with assms True \<open>promptCitations E t ?style = Inr prompt\<close> a show ?thesis
        unfolding generate_citations_def Let_def
        by (cases "wrapBilingual E answer (field (body req) ''language'')")
          (simp_all add: try_catch_def seq_def lift_def fail_def ret_def json_def)
    qed
  qed
qed

text \<open>
  C5.  \<open>normalizeRefs\<close> turns a string into the trimmed string and an array into its
  lines joined by newlines, where a line is a string element as it is or the JSON text
  of any other element, trimmed, and empty lines are dropped.  On
  \<^verbatim>\<open>/generate-citations\<close> the normalised text, when it is not empty and at most 100000
  code units long, is the text of the prompt that is sent; an empty array and an empty or
  white-space string both get the same 400 \<^verbatim>\<open>missing_references\<close>, without a call of
  the generation API.
\<close>

theorem references_normalized:
  "normalizeRefs E (JStr s) = Inr (trim s) \<and>
   (JUndefined \<notin> set rs \<longrightarrow>
      normalizeRefs E (JArr rs) =
        Inr (join (lit ''\<newline>'')
               (filter (\<lambda>l. l \<noteq> []) (map (\<lambda>r. trim (line_of E r)) rs)))) \<and>
   (normalizeRefs E (field (body req) ''references'') = Inr t \<and> t \<noteq> [] \<and>
    length t \<le> 100000 \<and>
    promptCitations E t (field_default (body req) ''style'' (JStr (lit ''APA''))) = Inr prompt \<longrightarrow>
      calls (snd (generate_citations E req w)) = calls w @ [(prompt, 2/5)]) \<and>
   (empty_references (field (body req) ''references'') \<longrightarrow>
      generate_citations E req w =
        (Responded (fail 400 ''missing_references''
           (Some (''Send '' @ [CHR 0x60] @ ''references'' @ [CHR 0x60] @
                  '' as a string OR array of strings.'')) None), w))"
  using normalizeRefs_array [of rs E] citations_sent [of E req t prompt w]
    citations_missing [of E req w] normalizeRefs_empty [of "field (body req) ''references''" E]
  by (simp add: normalizeRefs_def)

lemma lines_example:
  "filter (\<lambda>l. l \<noteq> [])
     (map (\<lambda>r. trim (line_of (node script) r))
        [JStr (lit ''  Knuth 1997 ''), JStr (lit ''  ''),
         JObj [(lit ''title'', JStr (lit ''TAOCP''))]]) =
   [lit ''Knuth 1997'',
    lit ''{'' @ [0x22] @ lit ''title'' @ [0x22] @ lit '':'' @ [0x22] @ lit ''TAOCP'' @ [0x22] @
    lit ''}'']"
  by code_simp

lemma promptCitations_string:
  "promptCitations E t (JStr st) = Inr (projr (promptCitations E t (JStr st)))"
  by (simp add: promptCitations_def)

theorem references_normalized_witness:
  "normalizeRefs (node [Text (JStr (lit ''1. Knuth''))])
     (JArr [JStr (lit ''  Knuth 1997 ''), JStr (lit ''  ''),
            JObj [(lit ''title'', JStr (lit ''TAOCP''))]]) =
     Inr (join (lit ''\<newline>'')
            [lit ''Knuth 1997'',
             lit ''{'' @ [0x22] @ lit ''title'' @ [0x22] @ lit '':'' @ [0x22] @ lit ''TAOCP'' @
             [0x22] @ lit ''}'']) \<and>
   calls (snd (generate_citations (node [Text (JStr (lit ''1. Knuth''))])
     (post [(''references'', JStr (lit '' Knuth 1997 ''))]) fresh)) =
     [(projr (promptCitations (node [Text (JStr (lit ''1. Knuth''))]) (lit ''Knuth 1997'')
                (JStr (lit ''APA''))), 2/5)] \<and>
   generate_citations (node [Text (JStr (lit ''1. Knuth''))])
     (post [(''references'', JArr [])]) fresh =
     generate_citations (node [Text (JStr (lit ''1. Knuth''))])
     (post [(''references'', JStr (lit ''  ''))]) fresh \<and>
   fst (generate_citations (node [Text (JStr (lit ''1. Knuth''))])
     (post [(''references'', JArr [])]) fresh) =
     Responded (fail 400 ''missing_references''
       (Some (''Send '' @ [CHR 0x60] @ ''references'' @ [CHR 0x60] @
              '' as a string OR array of strings.'')) None)"
proof -
  let ?E = "node [Text (JStr (lit ''1. Knuth''))]"
  have trimmed: "trim (lit '' Knuth 1997 '') = lit ''Knuth 1997''"
    by code_simp
  have "normalizeRefs ?E (field (body (post [(''references'', JStr (lit '' Knuth 1997 ''))]))
          ''references'') = Inr (lit ''Knuth 1997'')"
    by (simp add: field_post_here normalizeRefs_def trimmed)
  moreover have "lit ''Knuth 1997'' \<noteq> []" "length (lit ''Knuth 1997'') \<le> 100000"
    by (simp_all add: lit_def)
  moreover have "field_default (body (post [(''references'', JStr (lit '' Knuth 1997 ''))]))
      ''style'' (JStr (lit ''APA'')) = JStr (lit ''APA'')"
    by (simp add: field_default_def field_post_skip field_post_Nil lit_def)
  ultimately have sent: "calls (snd (generate_citations ?E
     (post [(''references'', JStr (lit '' Knuth 1997 ''))]) fresh)) =
     calls fresh @ [(projr (promptCitations ?E (lit ''Knuth 1997'') (JStr (lit ''APA''))), 2/5)]"
    using references_normalized [of ?E "[]" "[]"
        "post [(''references'', JStr (lit '' Knuth 1997 ''))]" "lit ''Knuth 1997''"
        "projr (promptCitations ?E (lit ''Knuth 1997'') (JStr (lit ''APA'')))" fresh]
      promptCitations_string [of ?E "lit ''Knuth 1997''" "lit ''APA''"]
    by simp
  have arr: "normalizeRefs ?E
     (JArr [JStr (lit ''  Knuth 1997 ''), JStr (lit ''  ''),
            JObj [(lit ''title'', JStr (lit ''TAOCP''))]]) =
     Inr (join (lit ''\<newline>'')
            [lit ''Knuth 1997'',
             lit ''{'' @ [0x22] @ lit ''title'' @ [0x22] @ lit '':'' @ [0x22] @ lit ''TAOCP'' @
             [0x22] @ lit ''}''])"
    using references_normalized [of ?E "[]"
        "[JStr (lit ''  Knuth 1997 ''), JStr (lit ''  ''),
          JObj [(lit ''title'', JStr (lit ''TAOCP''))]]"
        "post [(''references'', JArr [])]" "[]" "[]" fresh]
      lines_example [of "[Text (JStr (lit ''1. Knuth''))]"]
    by simp
  have e1: "generate_citations ?E (post [(''references'', JArr [])]) fresh =
     (Responded (fail 400 ''missing_references''
       (Some (''Send '' @ [CHR 0x60] @ ''references'' @ [CHR 0x60] @
              '' as a string OR array of strings.'')) None), fresh)"
    using references_normalized [of ?E "[]" "[]" "post [(''references'', JArr [])]" "[]" "[]" fresh]
    by (simp add: field_post_here)
  have e2: "generate_citations ?E (post [(''references'', JStr (lit ''  ''))]) fresh =
     (Responded (fail 400 ''missing_references''
       (Some (''Send '' @ [CHR 0x60] @ ''references'' @ [CHR 0x60] @
              '' as a string OR array of strings.'')) None), fresh)"
    using references_normalized [of ?E "[]" "[]" "post [(''references'', JStr (lit ''  ''))]"
        "[]" "[]" fresh]
    by (simp add: field_post_here lit_def isWhiteSpace_def)
  show ?thesis
    using sent arr e1 e2 by (simp add: fresh_def)
qed

subsection \<open>References that are neither a string nor an array\<close>

lemma normalizeRefs_other:
  "other_value v \<Longrightarrow>
   normalizeRefs E v =
     (case ToString E (nullish v (JStr [])) of Inl e \<Rightarrow> Inl e | Inr s \<Rightarrow> Inr (trim s))"
  by (cases v) (simp_all add: normalizeRefs_def)

lemma digits_42: "digits 42 = lit ''42''"
  by (simp add: digits_small digits_large lit_def)

lemma trim_42: "trim (lit ''42'') = lit ''42''"
  by (simp add: trim_def lit_def isWhiteSpace_def)

lemma normalizeRefs_42: "normalizeRefs E (JNum (Fin 42)) = Inr (lit ''42'')"
  by (simp add: normalizeRefs_def nullish_def NumberToString_def digits_42 trim_42)

lemma normalizeRefs_bool:
  "normalizeRefs E (JBool b) = Inr (if b then lit ''true'' else lit ''false'')"
  by (simp add: normalizeRefs_def nullish_def trim_def lit_def isWhiteSpace_def)

lemma normalizeRefs_object:
  "map_of kvs (lit ''toString'') = None \<Longrightarrow>
   normalizeRefs E (JObj kvs) = Inr (lit ''[object Object]'')"
  by (simp add: normalizeRefs_def nullish_def trim_def lit_def isWhiteSpace_def)

text \<open>
  C10.  A \<^verbatim>\<open>references\<close> value that is neither a string nor an array is replaced by
  the trimmed \<^verbatim>\<open>String(input ?? "")\<close>.  When that string is not empty the request is
  not answered with 400, and (the text being within the size guard) the prompt built from
  it is sent to the generation API.  \<^verbatim>\<open>references: 42\<close> is sent as the text \<^verbatim>\<open>42\<close>;
  a boolean and a plain object have the string forms \<^verbatim>\<open>true\<close>, \<^verbatim>\<open>false\<close> and
  \<^verbatim>\<open>[object Object]\<close>.
\<close>

theorem other_references_coerced:
  "(other_value v \<longrightarrow>
      normalizeRefs E v =
        (case ToString E (nullish v (JStr [])) of Inl e \<Rightarrow> Inl e | Inr s \<Rightarrow> Inr (trim s))) \<and>
   (other_value (field (body req) ''references'') \<and>
    ToString E (nullish (field (body req) ''references'') (JStr [])) = Inr s \<and> trim s \<noteq> [] \<longrightarrow>
      (\<exists>r. fst (generate_citations E req w) = Responded r \<and> status r \<noteq> 400) \<and>
      (length (trim s) \<le> 100000 \<and>
       promptCitations E (trim s) (field_default (body req) ''style'' (JStr (lit ''APA''))) =
         Inr prompt \<longrightarrow>
         calls (snd (generate_citations E req w)) = calls w @ [(prompt, 2/5)])) \<and>
   (field (body req) ''references'' = JNum (Fin 42) \<and>
    promptCitations E (lit ''42'') (field_default (body req) ''style'' (JStr (lit ''APA''))) =
      Inr prompt \<longrightarrow>
      calls (snd (generate_citations E req w)) = calls w @ [(prompt, 2/5)]) \<and>
   normalizeRefs E (JBool b) = Inr (if b then lit ''true'' else lit ''false'') \<and>
   (map_of kvs (lit ''toString'') = None \<longrightarrow>
      normalizeRefs E (JObj kvs) = Inr (lit ''[object Object]''))"
proof (intro conjI impI)
  show "normalizeRefs E v =
      (case ToString E (nullish v (JStr [])) of Inl e \<Rightarrow> Inl e | Inr s \<Rightarrow> Inr (trim s))"
    if "other_value v"
    using that by (rule normalizeRefs_other)
next
  assume a: "other_value (field (body req) ''references'') \<and>
    ToString E (nullish (field (body req) ''references'') (JStr [])) = Inr s \<and> trim s \<noteq> []"
  then have n: "normalizeRefs E (field (body req) ''references'') = Inr (trim s)"
    by (simp add: normalizeRefs_other)
  with a show "\<exists>r. fst (generate_citations E req w) = Responded r \<and> status r \<noteq> 400"
    by (simp add: citations_not_400)
  assume "length (trim s) \<le> 100000 \<and>
       promptCitations E (trim s) (field_default (body req) ''style'' (JStr (lit ''APA''))) =
         Inr prompt"
  with a n show "calls (snd (generate_citations E req w)) = calls w @ [(prompt, 2/5)]"
    by (simp add: citations_sent)
next
  assume "field (body req) ''references'' = JNum (Fin 42) \<and>
    promptCitations E (lit ''42'') (field_default (body req) ''style'' (JStr (lit ''APA''))) =
      Inr prompt"
  then show "calls (snd (generate_citations E req w)) = calls w @ [(prompt, 2/5)]"
    using citations_sent [of E req "lit ''42''" prompt w]
    by (simp add: normalizeRefs_42) (simp add: lit_def)
next
  show "normalizeRefs E (JBool b) = Inr (if b then lit ''true'' else lit ''false'')"
    by (rule normalizeRefs_bool)
next
  show "normalizeRefs E (JObj kvs) = Inr (lit ''[object Object]'')"
    if "map_of kvs (lit ''toString'') = None"
    using that by (rule normalizeRefs_object)
qed

theorem other_references_coerced_witness:
  "normalizeRefs (node [Text (JStr (lit ''1. 42''))]) (JNum (Fin 42)) = Inr (lit ''42'') \<and>
   calls (snd (generate_citations (node [Text (JStr (lit ''1. 42''))])
     (post [(''references'', JNum (Fin 42))]) fresh)) =
     [(projr (promptCitations (node [Text (JStr (lit ''1. 42''))]) (lit ''42'')
                (JStr (lit ''APA''))), 2/5)] \<and>
   normalizeRefs (node [Text (JStr (lit ''1. 42''))]) (JObj [(lit ''year'', JNum (Fin 1997))]) =
     Inr (lit ''[object Object]'')"
proof -
  let ?E = "node [Text (JStr (lit ''1. 42''))]"
  let ?req = "post [(''references'', JNum (Fin 42))]"
  have style: "field_default (body ?req) ''style'' (JStr (lit ''APA'')) = JStr (lit ''APA'')"
    by (simp add: field_default_def field_post_skip field_post_Nil lit_def)
  have str: "ToString ?E (nullish (JNum (Fin 42)) (JStr [])) = Inr (lit ''42'')"
    by (simp add: nullish_def NumberToString_def digits_42)
  have key: "map_of [(lit ''year'', JNum (Fin 1997))] (lit ''toString'') = None"
    by (simp add: lit_def)
  show ?thesis
    using other_references_coerced [of "JNum (Fin 42)" ?E ?req "lit ''42''" fresh
        "projr (promptCitations ?E (lit ''42'') (JStr (lit ''APA'')))" True
        "[(lit ''year'', JNum (Fin 1997))]"]
      promptCitations_string [of ?E "lit ''42''" "lit ''APA''"] style str key
    by (simp add: field_post_here trim_42 fresh_def)
qed

subsection \<open>The tutor and its memory\<close>

lemma tutor_valid:
  assumes "required (field (body req) ''question'') = Inr (Some q)"
  shows "tutor E req w =
    (let prompt = tutorPrompt (convo_of E (tutorMemory w @ [user_turn q]));
         asked = w\<lparr>tutorMemory := tutorMemory w @ [user_turn q],
                   calls := calls w @ [(prompt, 7/10)]\<rparr>
     in case fst (askGemini E prompt (7/10) w) of
          Inl e \<Rightarrow> (Responded (fail 500 ''tutor_failed'' None (Some (StringOf e))), asked)
        | Inr answer \<Rightarrow>
            (case wrapBilingual E answer (field (body req) ''language'') of
               Inl e \<Rightarrow> Responded (fail 500 ''tutor_failed'' None (Some (StringOf e)))
             | Inr wrapped \<Rightarrow> Responded (json ''answer'' wrapped),
             asked\<lparr>tutorMemory := tutorMemory w @ [user_turn q, assistant_turn answer]\<rparr>))"
proof -
  let ?mem = "tutorMemory w @ [user_turn q]"
  let ?w1 = "w\<lparr>tutorMemory := ?mem\<rparr>"
  let ?prompt = "tutorPrompt (convo_of E ?mem)"
  have ask: "askGemini E ?prompt (7/10) ?w1 =
      (fst (askGemini E ?prompt (7/10) w), ?w1\<lparr>calls := calls w @ [(?prompt, 7/10)]\<rparr>)"
    using askGemini_world [of E ?prompt "7/10" ?w1]
    by (simp add: fst_askGemini_memory)
  show ?thesis
    unfolding tutor_def Let_def using assms ask
    by (simp add: try_catch_def seq_def push_def lift_def ret_def user_turn_def
        assistant_turn_def
        split: sum.splits)
qed

lemma tutor_memory_grows:
  "\<exists>new. tutorMemory (snd (tutor E req w)) = tutorMemory w @ new"
proof (cases "required (field (body req) ''question'')")
  case (Inl e)
  then show ?thesis by (simp add: tutor_def)
next
  case (Inr t)
  show ?thesis
  proof (cases t)
    case None
    with Inr show ?thesis by (simp add: tutor_def)
  next
    case (Some q)
    with Inr have "required (field (body req) ''question'') = Inr (Some q)" by simp
    then show ?thesis
      by (simp add: tutor_valid Let_def split: sum.splits)
  qed
qed

lemma tutor_success:
  assumes "succeeded (fst (tutor E req w))"
  shows "\<exists>q a. field (body req) ''question'' = JStr q \<and>
    fst (askGemini E (tutorPrompt (convo_of E (tutorMemory w @ [user_turn q]))) (7/10) w) = Inr a \<and>
    snd (tutor E req w) =
      w\<lparr>tutorMemory := tutorMemory w @ [user_turn q, assistant_turn a],
        calls := calls w @ [(tutorPrompt (convo_of E (tutorMemory w @ [user_turn q])), 7/10)]\<rparr> \<and>
    (\<exists>wrapped. wrapBilingual E a (field (body req) ''language'') = Inr wrapped \<and>
       fst (tutor E req w) = Responded (json ''answer'' wrapped))"
proof (cases "required (field (body req) ''question'')")
  case (Inl e)
  with assms show ?thesis by (simp add: tutor_def)
next
  case (Inr t)
  show ?thesis
  proof (cases t)
    case None
    with Inr assms show ?thesis by (simp add: tutor_def fail_def)
  next
    case (Some q)
    with Inr have r: "required (field (body req) ''question'') = Inr (Some q)" by simp
    then have f: "field (body req) ''question'' = JStr q"
      using required_Some by blast
    show ?thesis
      using assms f
      by (auto simp add: tutor_valid [OF r] Let_def fail_def split: sum.splits)
  qed
qed

lemma tutor_calls_grow:
  "\<exists>new. tutorMemory (snd (tutor_calls E reqs w)) = tutorMemory w @ new"
proof (induction reqs arbitrary: w)
  case Nil
  show ?case by simp
next
  case (Cons req reqs)
  obtain out w1 where step: "tutor E req w = (out, w1)"
    by (cases "tutor E req w")
  obtain new1 where "tutorMemory w1 = tutorMemory w @ new1"
    using tutor_memory_grows [of E req w] step by auto
  moreover obtain new2 where "tutorMemory (snd (tutor_calls E reqs w1)) = tutorMemory w1 @ new2"
    using Cons.IH by blast
  ultimately have "tutorMemory (snd (tutor_calls E (req # reqs) w)) = tutorMemory w @ new1 @ new2"
    using step by (simp add: case_prod_beta)
  then show ?case ..
qed

lemma tutor_calls_success:
  assumes "list_all succeeded (fst (tutor_calls E reqs w))"
  shows "\<exists>qas.
      map (\<lambda>req. field (body req) ''question'') reqs = map (\<lambda>qa. JStr (fst qa)) qas \<and>
      (\<forall>n \<le> length reqs.
         tutorMemory (snd (tutor_calls E (take n reqs) w)) =
           tutorMemory w @ turns_of (take n qas)) \<and>
      calls (snd (tutor_calls E reqs w)) =
        calls w @
        map (\<lambda>n. (tutorPrompt (convo_of E
                      (tutorMemory w @ turns_of (take n qas) @ [user_turn (fst (qas ! n))])),
                   7/10))
          [0..<length qas]"
  using assms
proof (induction reqs arbitrary: w)
  case Nil
  show ?case by simp
next
  case (Cons req reqs)
  obtain out w1 where step: "tutor E req w = (out, w1)"
    by (cases "tutor E req w")
  from Cons.prems step have ok: "succeeded (fst (tutor E req w))"
    and rest: "list_all succeeded (fst (tutor_calls E reqs w1))"
    by (simp_all add: case_prod_beta)
  from tutor_success [OF ok] step obtain q a where
    q: "field (body req) ''question'' = JStr q" and
    w1: "w1 = w\<lparr>tutorMemory := tutorMemory w @ [user_turn q, assistant_turn a],
        calls := calls w @ [(tutorPrompt (convo_of E (tutorMemory w @ [user_turn q])), 7/10)]\<rparr>"
    by auto
  from Cons.IH [OF rest] obtain qas where
    qs: "map (\<lambda>req. field (body req) ''question'') reqs = map (\<lambda>qa. JStr (fst qa)) qas" and
    mem: "\<And>n. n \<le> length reqs \<Longrightarrow>
         tutorMemory (snd (tutor_calls E (take n reqs) w1)) =
           tutorMemory w1 @ turns_of (take n qas)" and
    cs: "calls (snd (tutor_calls E reqs w1)) =
        calls w1 @
        map (\<lambda>n. (tutorPrompt (convo_of E
                      (tutorMemory w1 @ turns_of (take n qas) @ [user_turn (fst (qas ! n))])),
                   7/10))
          [0..<length qas]"
    by blast
  let ?qas = "(q, a) # qas"
  have 1: "map (\<lambda>req. field (body req) ''question'') (req # reqs) =
      map (\<lambda>qa. JStr (fst qa)) ?qas"
    using q qs by simp
  have 2: "tutorMemory (snd (tutor_calls E (take n (req # reqs)) w)) =
           tutorMemory w @ turns_of (take n ?qas)" if "n \<le> length (req # reqs)" for n
  proof (cases n)
    case 0
    then show ?thesis by simp
  next
    case (Suc m)
    with that have "m \<le> length reqs" by simp
    from mem [OF this] show ?thesis
      using Suc step w1 by (simp add: case_prod_beta)
  qed
  have 3: "calls (snd (tutor_calls E (req # reqs) w)) =
        calls w @
        map (\<lambda>n. (tutorPrompt (convo_of E
                      (tutorMemory w @ turns_of (take n ?qas) @ [user_turn (fst (?qas ! n))])),
                   7/10))
          [0..<length ?qas]"
    using cs step w1 by (simp add: case_prod_beta map_upt_Suc del: upt_Suc)
  from 1 2 3 show ?case by blast
qed

lemma role_upper:
  "toUpperCase E (lit ''user'') = lit ''USER''"
  "toUpperCase E (lit ''assistant'') = lit ''ASSISTANT''"
  by (simp_all add: toUpperCase_def lit_def isAscii_def asciiUpper_def)

lemma lines_of_turns:
  "map (\<lambda>m. toUpperCase E (m_role m) @ lit '': '' @ m_text m) (turns_of qas) =
   concat (map (\<lambda>qa. [lit ''USER: '' @ fst qa, lit ''ASSISTANT: '' @ snd qa]) qas)"
proof (induction qas)
  case Nil
  show ?case by simp
next
  case (Cons qa qas)
  obtain q a where "qa = (q, a)" by (cases qa)
  with Cons show ?case
    by (simp add: user_turn_def assistant_turn_def role_upper) (simp add: lit_def)
qed

lemma convo_of_turns:
  "convo_of E (turns_of qas @ [user_turn q]) =
   join (lit ''\<newline>'')
     (concat (map (\<lambda>qa. [lit ''USER: '' @ fst qa, lit ''ASSISTANT: '' @ snd qa]) qas) @
      [lit ''USER: '' @ q])"
  by (simp add: convo_of_def lines_of_turns user_turn_def role_upper) (simp add: lit_def)

lemma join_snoc: "join sep (ls @ [y]) = concat (map (\<lambda>l. l @ sep) ls) @ y"
proof (induction ls)
  case Nil
  show ?case by simp
next
  case (Cons x ls)
  then show ?case by (cases ls) simp_all
qed

lemma tutorPrompt_header: "tutorPrompt convo = tutor_header @ convo"
  by (simp add: tutorPrompt_def tutor_header_def lit_def)

lemma line_user: "toUpperCase E (m_role (user_turn q)) @ lit '': '' @ m_text (user_turn q) = lit ''USER: '' @ q"
  by (simp add: user_turn_def role_upper) (simp add: lit_def)

lemma prompt_lines:
  "tutorPrompt (convo_of E (mem @ [user_turn q])) =
   tutor_header @
   concat (map (\<lambda>l. l @ lit ''\<newline>'')
             (map (\<lambda>m. toUpperCase E (m_role m) @ lit '': '' @ m_text m) mem)) @
   lit ''USER: '' @ q"
  using join_snoc [of "lit ''\<newline>''"
      "map (\<lambda>m. toUpperCase E (m_role m) @ lit '': '' @ m_text m) mem"
      "lit ''USER: '' @ q"] line_user [of E q]
  by (simp add: tutorPrompt_header convo_of_def)

lemma prompt_lines_turns:
  "tutorPrompt (convo_of E (mem @ turns_of qs @ [user_turn q])) =
   tutor_header @
   concat (map (\<lambda>l. l @ lit ''\<newline>'')
             (map (\<lambda>m. toUpperCase E (m_role m) @ lit '': '' @ m_text m) mem @
              concat (map (\<lambda>qa. [lit ''USER: '' @ fst qa, lit ''ASSISTANT: '' @ snd qa]) qs))) @
   lit ''USER: '' @ q"
  using prompt_lines [of E "mem @ turns_of qs" q]
  by (simp add: lines_of_turns)

lemma prompt_lines_later:
  "tutorPrompt (convo_of E (mem @ [user_turn q] @ new @ [user_turn q'])) =
   tutor_header @
   concat (map (\<lambda>l. l @ lit ''\<newline>'')
             (map (\<lambda>m. toUpperCase E (m_role m) @ lit '': '' @ m_text m) mem @
              [lit ''USER: '' @ q] @
              map (\<lambda>m. toUpperCase E (m_role m) @ lit '': '' @ m_text m) new)) @
   lit ''USER: '' @ q'"
  using prompt_lines [of E "mem @ [user_turn q] @ new" q'] line_user [of E q]
  by simp

text \<open>
  C6.  Over any sequence of \<^verbatim>\<open>/tutor\<close> calls handled one after the other the memory only
  grows at its end.  When all the calls succeed, each leaves its question and the answer
  of the model, in this order, and the prompt of the \<open>n\<close>-th call is the fixed header
  followed by one line for every turn that was in the memory before the sequence, one
  line \<^verbatim>\<open>USER: ...\<close> and one line \<^verbatim>\<open>ASSISTANT: ...\<close> for each of the \<open>n\<close> calls before
  it, in order, each line ended by a newline, and last the line \<^verbatim>\<open>USER: ...\<close> of its
  own question.
\<close>

theorem tutor_memory_accumulates:
  "(\<exists>new. tutorMemory (snd (tutor_calls E reqs w)) = tutorMemory w @ new) \<and>
   (list_all succeeded (fst (tutor_calls E reqs w)) \<longrightarrow>
      (\<exists>qas.
         map (\<lambda>req. field (body req) ''question'') reqs = map (\<lambda>qa. JStr (fst qa)) qas \<and>
         (\<forall>n \<le> length reqs.
            tutorMemory (snd (tutor_calls E (take n reqs) w)) =
              tutorMemory w @ turns_of (take n qas)) \<and>
         calls (snd (tutor_calls E reqs w)) =
           calls w @
           map (\<lambda>n. (tutorPrompt (convo_of E
                         (tutorMemory w @ turns_of (take n qas) @ [user_turn (fst (qas ! n))])),
                      7/10))
             [0..<length qas] \<and>
         calls (snd (tutor_calls E reqs w)) =
           calls w @
           map (\<lambda>n. (tutor_header @
                      concat (map (\<lambda>l. l @ lit ''\<newline>'')
                        (map (\<lambda>m. toUpperCase E (m_role m) @ lit '': '' @ m_text m)
                           (tutorMemory w) @
                         concat (map (\<lambda>qa. [lit ''USER: '' @ fst qa,
                                              lit ''ASSISTANT: '' @ snd qa]) (take n qas)))) @
                      lit ''USER: '' @ fst (qas ! n),
                      7/10))
             [0..<length qas])) \<and>
   convo_of E (turns_of exchanges @ [user_turn question]) =
     join (lit ''\<newline>'')
       (concat (map (\<lambda>qa. [lit ''USER: '' @ fst qa, lit ''ASSISTANT: '' @ snd qa]) exchanges) @
        [lit ''USER: '' @ question]) \<and>
   tutorPrompt convo = tutor_header @ convo"
proof (intro conjI impI)
  show "\<exists>new. tutorMemory (snd (tutor_calls E reqs w)) = tutorMemory w @ new"
    by (rule tutor_calls_grow)
next
  assume "list_all succeeded (fst (tutor_calls E reqs w))"
  from tutor_calls_success [OF this] obtain qas where
    1: "map (\<lambda>req. field (body req) ''question'') reqs = map (\<lambda>qa. JStr (fst qa)) qas" and
    2: "\<forall>n \<le> length reqs.
         tutorMemory (snd (tutor_calls E (take n reqs) w)) =
           tutorMemory w @ turns_of (take n qas)" and
    3: "calls (snd (tutor_calls E reqs w)) =
        calls w @
        map (\<lambda>n. (tutorPrompt (convo_of E
                      (tutorMemory w @ turns_of (take n qas) @ [user_turn (fst (qas ! n))])),
                   7/10))
          [0..<length qas]"
    by blast
  have 4: "calls (snd (tutor_calls E reqs w)) =
           calls w @
           map (\<lambda>n. (tutor_header @
                      concat (map (\<lambda>l. l @ lit ''\<newline>'')
                        (map (\<lambda>m. toUpperCase E (m_role m) @ lit '': '' @ m_text m)
                           (tutorMemory w) @
                         concat (map (\<lambda>qa. [lit ''USER: '' @ fst qa,
                                              lit ''ASSISTANT: '' @ snd qa]) (take n qas)))) @
                      lit ''USER: '' @ fst (qas ! n),
                      7/10))
             [0..<length qas]"
    unfolding 3 prompt_lines_turns ..
  from 1 2 3 4 show "\<exists>qas.
         map (\<lambda>req. field (body req) ''question'') reqs = map (\<lambda>qa. JStr (fst qa)) qas \<and>
         (\<forall>n \<le> length reqs.
            tutorMemory (snd (tutor_calls E (take n reqs) w)) =
              tutorMemory w @ turns_of (take n qas)) \<and>
         calls (snd (tutor_calls E reqs w)) =
           calls w @
           map (\<lambda>n. (tutorPrompt (convo_of E
                         (tutorMemory w @ turns_of (take n qas) @ [user_turn (fst (qas ! n))])),
                      7/10))
             [0..<length qas] \<and>
         calls (snd (tutor_calls E reqs w)) =
           calls w @
           map (\<lambda>n. (tutor_header @
                      concat (map (\<lambda>l. l @ lit ''\<newline>'')
                        (map (\<lambda>m. toUpperCase E (m_role m) @ lit '': '' @ m_text m)
                           (tutorMemory w) @
                         concat (map (\<lambda>qa. [lit ''USER: '' @ fst qa,
                                              lit ''ASSISTANT: '' @ snd qa]) (take n qas)))) @
                      lit ''USER: '' @ fst (qas ! n),
                      7/10))
             [0..<length qas]"
    by blast
next
  show "convo_of E (turns_of exchanges @ [user_turn question]) =
     join (lit ''\<newline>'')
       (concat (map (\<lambda>qa. [lit ''USER: '' @ fst qa, lit ''ASSISTANT: '' @ snd qa]) exchanges) @
        [lit ''USER: '' @ question])"
    by (rule convo_of_turns)
next
  show "tutorPrompt convo = tutor_header @ convo"
    by (rule tutorPrompt_header)
qed

lemma question_cell:
  "required (field (body (post ((''question'', JStr (lit ''What is a cell?'')) # kvs)))
     ''question'') = Inr (Some (lit ''What is a cell?''))"
  by (simp add: field_post_here required_string lit_def isWhiteSpace_def)

lemma question_why:
  "required (field (body (post ((''question'', JStr (lit ''Why?'')) # kvs))) ''question'') =
     Inr (Some (lit ''Why?''))"
  by (simp add: field_post_here required_string lit_def isWhiteSpace_def)

lemma trim_unit: "trim (lit ''A unit.'') = lit ''A unit.''"
  by code_simp

lemma trim_think: "trim (lit ''Think.'') = lit ''Think.''"
  by code_simp

lemma no_language: "wrapBilingual E a (field (body (post [(''question'', v)])) ''language'') = Inr a"
  by (simp add: field_post_skip field_post_Nil lit_def wrapBilingual_falsy)

lemma two_calls:
  "tutor_calls (node [Text (JStr (lit ''A unit.'')), Text (JStr (lit ''Think.''))])
     [post [(''question'', JStr (lit ''What is a cell?''))],
      post [(''question'', JStr (lit ''Why?''))]] fresh =
   ([Responded (json ''answer'' (lit ''A unit.'')), Responded (json ''answer'' (lit ''Think.''))],
    \<lparr>tutorMemory = turns_of [(lit ''What is a cell?'', lit ''A unit.''), (lit ''Why?'', lit ''Think.'')],
     uploads = uploads fresh,
     calls =
       [(tutorPrompt (convo_of (node [Text (JStr (lit ''A unit.'')), Text (JStr (lit ''Think.''))])
           [user_turn (lit ''What is a cell?'')]), 7/10),
        (tutorPrompt (convo_of (node [Text (JStr (lit ''A unit.'')), Text (JStr (lit ''Think.''))])
           [user_turn (lit ''What is a cell?''), assistant_turn (lit ''A unit.''),
            user_turn (lit ''Why?'')]), 7/10)]\<rparr>)"
  by (simp add: tutor_valid [OF question_cell] tutor_valid [OF question_why] Let_def no_language
      askGemini_def node_def scripted_def fresh_def trim_unit trim_think)

lemma two_prompts:
  "tutorPrompt (convo_of E [user_turn (lit ''What is a cell?'')]) =
     tutor_header @ lit ''USER: What is a cell?''"
  "tutorPrompt (convo_of E [user_turn (lit ''What is a cell?''), assistant_turn (lit ''A unit.''),
      user_turn (lit ''Why?'')]) =
     tutor_header @ lit ''USER: What is a cell?\<newline>ASSISTANT: A unit.\<newline>USER: Why?''"
  using prompt_lines_turns [of E "[]" "[]" "lit ''What is a cell?''"]
    prompt_lines_turns [of E "[]" "[(lit ''What is a cell?'', lit ''A unit.'')]" "lit ''Why?''"]
  by (simp_all add: lit_def)

theorem tutor_memory_accumulates_witness:
  "list_all succeeded
     (fst (tutor_calls (node [Text (JStr (lit ''A unit.'')), Text (JStr (lit ''Think.''))])
        [post [(''question'', JStr (lit ''What is a cell?''))],
         post [(''question'', JStr (lit ''Why?''))]] fresh)) \<and>
   tutorMemory
     (snd (tutor_calls (node [Text (JStr (lit ''A unit.'')), Text (JStr (lit ''Think.''))])
        [post [(''question'', JStr (lit ''What is a cell?''))],
         post [(''question'', JStr (lit ''Why?''))]] fresh)) =
     [user_turn (lit ''What is a cell?''), assistant_turn (lit ''A unit.''),
      user_turn (lit ''Why?''), assistant_turn (lit ''Think.'')] \<and>
   (\<exists>qas.
      calls (snd (tutor_calls (node [Text (JStr (lit ''A unit.'')), Text (JStr (lit ''Think.''))])
        [post [(''question'', JStr (lit ''What is a cell?''))],
         post [(''question'', JStr (lit ''Why?''))]] fresh)) =
      map (\<lambda>n. (tutor_header @
                 concat (map (\<lambda>l. l @ lit ''\<newline>'')
                   (concat (map (\<lambda>qa. [lit ''USER: '' @ fst qa, lit ''ASSISTANT: '' @ snd qa])
                      (take n qas)))) @
                 lit ''USER: '' @ fst (qas ! n),
                 7/10))
        [0..<length qas]) \<and>
   calls (snd (tutor_calls (node [Text (JStr (lit ''A unit.'')), Text (JStr (lit ''Think.''))])
     [post [(''question'', JStr (lit ''What is a cell?''))],
      post [(''question'', JStr (lit ''Why?''))]] fresh)) =
     [(tutor_header @ lit ''USER: What is a cell?'', 7/10),
      (tutor_header @ lit ''USER: What is a cell?\<newline>ASSISTANT: A unit.\<newline>USER: Why?'',
       7/10)]"
proof -
  let ?E = "node [Text (JStr (lit ''A unit.'')), Text (JStr (lit ''Think.''))]"
  let ?reqs = "[post [(''question'', JStr (lit ''What is a cell?''))],
         post [(''question'', JStr (lit ''Why?''))]]"
  have ok: "list_all succeeded (fst (tutor_calls ?E ?reqs fresh))"
    unfolding two_calls by (simp add: json_def)
  with tutor_memory_accumulates [of ?E ?reqs fresh]
  obtain qas where "calls (snd (tutor_calls ?E ?reqs fresh)) =
           calls fresh @
           map (\<lambda>n. (tutor_header @
                      concat (map (\<lambda>l. l @ lit ''\<newline>'')
                        (map (\<lambda>m. toUpperCase ?E (m_role m) @ lit '': '' @ m_text m)
                           (tutorMemory fresh) @
                         concat (map (\<lambda>qa. [lit ''USER: '' @ fst qa,
                                              lit ''ASSISTANT: '' @ snd qa]) (take n qas)))) @
                      lit ''USER: '' @ fst (qas ! n),
                      7/10))
             [0..<length qas]"
    by blast
  then have "\<exists>qas. calls (snd (tutor_calls ?E ?reqs fresh)) =
      map (\<lambda>n. (tutor_header @
                 concat (map (\<lambda>l. l @ lit ''\<newline>'')
                   (concat (map (\<lambda>qa. [lit ''USER: '' @ fst qa, lit ''ASSISTANT: '' @ snd qa])
                      (take n qas)))) @
                 lit ''USER: '' @ fst (qas ! n),
                 7/10))
        [0..<length qas]"
    by (auto simp add: fresh_def)
  moreover have "tutorMemory (snd (tutor_calls ?E ?reqs fresh)) =
     [user_turn (lit ''What is a cell?''), assistant_turn (lit ''A unit.''),
      user_turn (lit ''Why?''), assistant_turn (lit ''Think.'')]"
    unfolding two_calls by simp
  moreover have "calls (snd (tutor_calls ?E ?reqs fresh)) =
     [(tutor_header @ lit ''USER: What is a cell?'', 7/10),
      (tutor_header @ lit ''USER: What is a cell?\<newline>ASSISTANT: A unit.\<newline>USER: Why?'',
       7/10)]"
    unfolding two_calls two_prompts by simp
  ultimately show ?thesis using ok by blast
qed

lemma tutor_failure:
  assumes "field (body req) ''question'' = JStr q" "\<not> list_all isWhiteSpace q"
    and "fst (askGemini E (tutorPrompt (convo_of E (tutorMemory w @ [user_turn q]))) (7/10) w) =
           Inl e"
  shows "tutor E req w =
    (Responded (fail 500 ''tutor_failed'' None (Some (StringOf e))),
     w\<lparr>tutorMemory := tutorMemory w @ [user_turn q],
       calls := calls w @ [(tutorPrompt (convo_of E (tutorMemory w @ [user_turn q])), 7/10)]\<rparr>)"
proof -
  have "required (field (body req) ''question'') = Inr (Some q)"
    using assms by (simp add: required_string)
  from tutor_valid [OF this, of E w] assms(3) show ?thesis
    by (simp add: Let_def)
qed

lemma tutor_prompt:
  assumes "field (body req) ''question'' = JStr q" "\<not> list_all isWhiteSpace q"
  shows "calls (snd (tutor E req w)) =
    calls w @ [(tutorPrompt (convo_of E (tutorMemory w @ [user_turn q])), 7/10)]"
proof -
  have "required (field (body req) ''question'') = Inr (Some q)"
    using assms by (simp add: required_string)
  from tutor_valid [OF this, of E w] show ?thesis
    by (simp add: Let_def split: sum.splits)
qed

text \<open>
  C8.  When the call of the model throws during a \<^verbatim>\<open>/tutor\<close> call, the answer is 500
  \<^verbatim>\<open>tutor_failed\<close> and the memory keeps the question pushed before the call, with no
  assistant turn after it.  Whatever \<^verbatim>\<open>/tutor\<close> calls follow, the memory still starts
  with the old memory and that question, and the prompt of a later call is the fixed
  header, a line for every turn of the old memory, the line \<^verbatim>\<open>USER: ...\<close> of the failed
  question, a line for every turn pushed since, and the line of the new question.
\<close>

theorem tutor_failure_not_rolled_back:
  "field (body req) ''question'' = JStr q \<and> \<not> list_all isWhiteSpace q \<and>
   fst (askGemini E (tutorPrompt (convo_of E (tutorMemory w @ [user_turn q]))) (7/10) w) = Inl e \<longrightarrow>
     fst (tutor E req w) = Responded (fail 500 ''tutor_failed'' None (Some (StringOf e))) \<and>
     tutorMemory (snd (tutor E req w)) = tutorMemory w @ [user_turn q] \<and>
     (\<exists>new.
        tutorMemory (snd (tutor_calls E between (snd (tutor E req w)))) =
          tutorMemory w @ [user_turn q] @ new \<and>
        (field (body later) ''question'' = JStr q' \<and> \<not> list_all isWhiteSpace q' \<longrightarrow>
           calls (snd (tutor E later (snd (tutor_calls E between (snd (tutor E req w)))))) =
             calls (snd (tutor_calls E between (snd (tutor E req w)))) @
             [(tutorPrompt (convo_of E (tutorMemory w @ [user_turn q] @ new @ [user_turn q'])),
               7/10)] \<and>
           calls (snd (tutor E later (snd (tutor_calls E between (snd (tutor E req w)))))) =
             calls (snd (tutor_calls E between (snd (tutor E req w)))) @
             [(tutor_header @
               concat (map (\<lambda>l. l @ lit ''\<newline>'')
                 (map (\<lambda>m. toUpperCase E (m_role m) @ lit '': '' @ m_text m) (tutorMemory w) @
                  [lit ''USER: '' @ q] @
                  map (\<lambda>m. toUpperCase E (m_role m) @ lit '': '' @ m_text m) new)) @
               lit ''USER: '' @ q',
               7/10)]))"
proof (intro impI)
  assume a: "field (body req) ''question'' = JStr q \<and> \<not> list_all isWhiteSpace q \<and>
   fst (askGemini E (tutorPrompt (convo_of E (tutorMemory w @ [user_turn q]))) (7/10) w) = Inl e"
  then have t: "tutor E req w =
    (Responded (fail 500 ''tutor_failed'' None (Some (StringOf e))),
     w\<lparr>tutorMemory := tutorMemory w @ [user_turn q],
       calls := calls w @ [(tutorPrompt (convo_of E (tutorMemory w @ [user_turn q])), 7/10)]\<rparr>)"
    by (simp add: tutor_failure)
  let ?w2 = "snd (tutor_calls E between (snd (tutor E req w)))"
  obtain new where new: "tutorMemory ?w2 = tutorMemory w @ [user_turn q] @ new"
    using tutor_calls_grow [of E between "snd (tutor E req w)"] t by auto
  have later: "calls (snd (tutor E later ?w2)) =
      calls ?w2 @
      [(tutorPrompt (convo_of E (tutorMemory w @ [user_turn q] @ new @ [user_turn q'])), 7/10)]"
    if "field (body later) ''question'' = JStr q' \<and> \<not> list_all isWhiteSpace q'"
    using tutor_prompt [of later q' E ?w2] that new by simp
  have "calls (snd (tutor E later ?w2)) =
      calls ?w2 @
      [(tutorPrompt (convo_of E (tutorMemory w @ [user_turn q] @ new @ [user_turn q'])), 7/10)] \<and>
    calls (snd (tutor E later ?w2)) =
      calls ?w2 @
      [(tutor_header @
        concat (map (\<lambda>l. l @ lit ''\<newline>'')
          (map (\<lambda>m. toUpperCase E (m_role m) @ lit '': '' @ m_text m) (tutorMemory w) @
           [lit ''USER: '' @ q] @
           map (\<lambda>m. toUpperCase E (m_role m) @ lit '': '' @ m_text m) new)) @
        lit ''USER: '' @ q',
        7/10)]"
    if "field (body later) ''question'' = JStr q' \<and> \<not> list_all isWhiteSpace q'"
    using later [OF that] prompt_lines_later [of E "tutorMemory w" q new q'] by simp
  with new t show "fst (tutor E req w) =
       Responded (fail 500 ''tutor_failed'' None (Some (StringOf e))) \<and>
     tutorMemory (snd (tutor E req w)) = tutorMemory w @ [user_turn q] \<and>
     (\<exists>new.
        tutorMemory ?w2 = tutorMemory w @ [user_turn q] @ new \<and>
        (field (body later) ''question'' = JStr q' \<and> \<not> list_all isWhiteSpace q' \<longrightarrow>
           calls (snd (tutor E later ?w2)) =
             calls ?w2 @
             [(tutorPrompt (convo_of E (tutorMemory w @ [user_turn q] @ new @ [user_turn q'])),
               7/10)] \<and>
           calls (snd (tutor E later ?w2)) =
             calls ?w2 @
             [(tutor_header @
               concat (map (\<lambda>l. l @ lit ''\<newline>'')
                 (map (\<lambda>m. toUpperCase E (m_role m) @ lit '': '' @ m_text m) (tutorMemory w) @
                  [lit ''USER: '' @ q] @
                  map (\<lambda>m. toUpperCase E (m_role m) @ lit '': '' @ m_text m) new)) @
               lit ''USER: '' @ q',
               7/10)]))"
    by auto
qed

theorem tutor_failure_not_rolled_back_witness:
  "fst (tutor (node [Rejects (Thrown (lit ''503''))])
     (post [(''question'', JStr (lit ''What is a cell?''))]) fresh) =
     Responded (fail 500 ''tutor_failed'' None (Some (StringOf (Thrown (lit ''503''))))) \<and>
   tutorMemory (snd (tutor (node [Rejects (Thrown (lit ''503''))])
     (post [(''question'', JStr (lit ''What is a cell?''))]) fresh)) =
     [user_turn (lit ''What is a cell?'')] \<and>
   calls (snd (tutor (node [Rejects (Thrown (lit ''503''))])
     (post [(''question'', JStr (lit ''Why?''))])
     (snd (tutor (node [Rejects (Thrown (lit ''503''))])
        (post [(''question'', JStr (lit ''What is a cell?''))]) fresh)))) =
     calls (snd (tutor (node [Rejects (Thrown (lit ''503''))])
        (post [(''question'', JStr (lit ''What is a cell?''))]) fresh)) @
     [(tutor_header @ lit ''USER: What is a cell?\<newline>USER: Why?'', 7/10)]"
proof -
  let ?E = "node [Rejects (Thrown (lit ''503''))]"
  let ?req = "post [(''question'', JStr (lit ''What is a cell?''))]"
  let ?later = "post [(''question'', JStr (lit ''Why?''))]"
  have q: "field (body ?req) ''question'' = JStr (lit ''What is a cell?'')"
      "\<not> list_all isWhiteSpace (lit ''What is a cell?'')"
    by (simp_all add: field_post_here lit_def isWhiteSpace_def)
  have q': "field (body ?later) ''question'' = JStr (lit ''Why?'')"
      "\<not> list_all isWhiteSpace (lit ''Why?'')"
    by (simp_all add: field_post_here lit_def isWhiteSpace_def)
  have thrown: "fst (askGemini ?E p (7/10) fresh) = Inl (Thrown (lit ''503''))" for p
    by (simp add: askGemini_def node_def scripted_def fresh_def)
  have joined: "lit ''USER: '' @ lit ''What is a cell?'' @ lit ''\<newline>'' @ lit ''USER: '' @ lit ''Why?'' =
      lit ''USER: What is a cell?\<newline>USER: Why?''"
    by (simp add: lit_def)
  from tutor_failure_not_rolled_back
    [of ?req "lit ''What is a cell?''" ?E fresh "Thrown (lit ''503'')" "[]" ?later "lit ''Why?''"]
    q q' thrown joined
  show ?thesis
    by (auto simp add: fresh_def)
qed

text \<open>
  C9.  A successful \<^verbatim>\<open>/tutor\<close> call with a language other than \<^verbatim>\<open>none\<close> stores the
  answer of the model as it came, and sends that answer followed by the translation
  suffix: the suffix is in the response only.
\<close>

theorem tutor_stores_unwrapped:
  "succeeded (fst (tutor E req w)) \<and> field (body req) ''language'' = JStr l \<and> l \<noteq> [] \<and>
   \<not> is_none l \<longrightarrow>
     (\<exists>q a.
        fst (askGemini E (tutorPrompt (convo_of E (tutorMemory w @ [user_turn q]))) (7/10) w) =
          Inr a \<and>
        tutorMemory (snd (tutor E req w)) = tutorMemory w @ [user_turn q, assistant_turn a] \<and>
        fst (tutor E req w) = Responded (json ''answer'' (a @ translation_suffix l)) \<and>
        m_text (last (tutorMemory (snd (tutor E req w)))) \<noteq> a @ translation_suffix l)"
proof (intro impI)
  assume a: "succeeded (fst (tutor E req w)) \<and> field (body req) ''language'' = JStr l \<and>
    l \<noteq> [] \<and> \<not> is_none l"
  then have ok: "succeeded (fst (tutor E req w))" by simp
  from tutor_success [OF ok] obtain q ans wrapped where
    ask: "fst (askGemini E (tutorPrompt (convo_of E (tutorMemory w @ [user_turn q]))) (7/10) w) =
          Inr ans" and
    w': "snd (tutor E req w) =
      w\<lparr>tutorMemory := tutorMemory w @ [user_turn q, assistant_turn ans],
        calls := calls w @ [(tutorPrompt (convo_of E (tutorMemory w @ [user_turn q])), 7/10)]\<rparr>" and
    wr: "wrapBilingual E ans (field (body req) ''language'') = Inr wrapped" and
    out: "fst (tutor E req w) = Responded (json ''answer'' wrapped)"
    by blast
  from a wr have "wrapped = ans @ translation_suffix l"
    by (simp add: wrapBilingual_truthy)
  moreover have "translation_suffix l \<noteq> []"
    by (simp add: translation_suffix_def lit_def)
  ultimately show "\<exists>q a.
        fst (askGemini E (tutorPrompt (convo_of E (tutorMemory w @ [user_turn q]))) (7/10) w) =
          Inr a \<and>
        tutorMemory (snd (tutor E req w)) = tutorMemory w @ [user_turn q, assistant_turn a] \<and>
        fst (tutor E req w) = Responded (json ''answer'' (a @ translation_suffix l)) \<and>
        m_text (last (tutorMemory (snd (tutor E req w)))) \<noteq> a @ translation_suffix l"
    using ask w' out by (auto simp add: assistant_turn_def)
qed

lemma french_call:
  "tutor (node [Text (JStr (lit ''A unit.''))])
     (post [(''question'', JStr (lit ''What is a cell?'')), (''language'', JStr (lit ''French''))])
     fresh =
   (Responded (json ''answer'' (lit ''A unit.'' @ translation_suffix (lit ''French''))),
    \<lparr>tutorMemory = [user_turn (lit ''What is a cell?''), assistant_turn (lit ''A unit.'')],
     uploads = uploads fresh,
     calls = [(tutorPrompt (convo_of (node [Text (JStr (lit ''A unit.''))])
                 [user_turn (lit ''What is a cell?'')]), 7/10)]\<rparr>)"
proof -
  let ?req = "post [(''question'', JStr (lit ''What is a cell?'')),
                    (''language'', JStr (lit ''French''))]"
  have l: "field (body ?req) ''language'' = JStr (lit ''French'')"
    by (simp add: field_post_here field_post_skip lit_def)
  have "\<not> is_none (lit ''French'')"
    by (simp add: is_none_def lit_def asciiLower_def)
  then have wrap: "wrapBilingual E a (JStr (lit ''French'')) =
      Inr (a @ translation_suffix (lit ''French''))" for E a
    by (simp add: wrapBilingual_truthy lit_def)
  show ?thesis
    by (simp add: tutor_valid [OF question_cell] Let_def l wrap
        askGemini_def node_def scripted_def fresh_def trim_unit)
qed

theorem tutor_stores_unwrapped_witness:
  "succeeded (fst (tutor (node [Text (JStr (lit ''A unit.''))])
     (post [(''question'', JStr (lit ''What is a cell?'')), (''language'', JStr (lit ''French''))])
     fresh)) \<and>
   (\<exists>q a.
      tutorMemory (snd (tutor (node [Text (JStr (lit ''A unit.''))])
        (post [(''question'', JStr (lit ''What is a cell?'')),
               (''language'', JStr (lit ''French''))]) fresh)) =
        [user_turn q, assistant_turn a] \<and>
      fst (tutor (node [Text (JStr (lit ''A unit.''))])
        (post [(''question'', JStr (lit ''What is a cell?'')),
               (''language'', JStr (lit ''French''))]) fresh) =
        Responded (json ''answer'' (a @ translation_suffix (lit ''French'')))) \<and>
   tutorMemory (snd (tutor (node [Text (JStr (lit ''A unit.''))])
     (post [(''question'', JStr (lit ''What is a cell?'')), (''language'', JStr (lit ''French''))])
     fresh)) = [user_turn (lit ''What is a cell?''), assistant_turn (lit ''A unit.'')]"
proof -
  let ?E = "node [Text (JStr (lit ''A unit.''))]"
  let ?req = "post [(''question'', JStr (lit ''What is a cell?'')),
                    (''language'', JStr (lit ''French''))]"
  have ok: "succeeded (fst (tutor ?E ?req fresh))"
    unfolding french_call by (simp add: json_def)
  have l: "field (body ?req) ''language'' = JStr (lit ''French'')"
    by (simp add: field_post_here field_post_skip lit_def)
  have n: "lit ''French'' \<noteq> []" "\<not> is_none (lit ''French'')"
    by (simp_all add: is_none_def lit_def asciiLower_def)
  from tutor_stores_unwrapped [of ?E ?req fresh "lit ''French''"] ok l n
  obtain q a where
    "tutorMemory (snd (tutor ?E ?req fresh)) = tutorMemory fresh @ [user_turn q, assistant_turn a]"
    "fst (tutor ?E ?req fresh) = Responded (json ''answer'' (a @ translation_suffix (lit ''French'')))"
    by blast
  then have "\<exists>q a. tutorMemory (snd (tutor ?E ?req fresh)) = [user_turn q, assistant_turn a] \<and>
      fst (tutor ?E ?req fresh) =
        Responded (json ''answer'' (a @ translation_suffix (lit ''French'')))"
    by (auto simp add: fresh_def)
  moreover have "tutorMemory (snd (tutor ?E ?req fresh)) =
      [user_turn (lit ''What is a cell?''), assistant_turn (lit ''A unit.'')]"
    unfolding french_call by simp
  ultimately show ?thesis using ok by blast
qed

end
